theory Spec2Isabelle
  imports Main
begin

section \<open>Resource identifiers\<close>

text \<open>
  The three identifier structs of package \<open>parse\<close> that the drivers take apart by
  field (\<open>id.ResourceGroup\<close>, \<open>id.SiteName\<close>, \<open>servicePlanId.ServerfarmName\<close>,
  \<open>aseId.HostingEnvironmentName\<close>).
\<close>

record WebAppId =
  SubscriptionId :: string
  ResourceGroup :: string
  SiteName :: string

record ServicePlanId =
  SubscriptionId :: string
  ResourceGroup :: string
  ServerfarmName :: string

record AppServiceEnvironmentId =
  SubscriptionId :: string
  ResourceGroup :: string
  HostingEnvironmentName :: string

text \<open>
  \<open>parse.NewWebAppID(subscriptionId, resourceGroup, name)\<close>: the composite identifier
  built from its three parts.
\<close>

definition NewWebAppID :: "string \<Rightarrow> string \<Rightarrow> string \<Rightarrow> WebAppId" where
  "NewWebAppID subscriptionId resourceGroup name =
     \<lparr>WebAppId.SubscriptionId = subscriptionId,
      WebAppId.ResourceGroup = resourceGroup,
      SiteName = name\<rparr>"

section \<open>Errors\<close>

text \<open>
  A Go \<open>error\<close> is \<open>error option\<close>, \<open>None\<close> for \<open>nil\<close>. \<open>fmt.Errorf(format, args...)\<close>
  keeps its format string and its arguments, so that a wrapped error still shows the
  error it wraps. A pointer argument may be \<open>nil\<close>.
\<close>

datatype fmt_arg =
    ArgWebAppId WebAppId
  | ArgWebAppIdPtr "WebAppId option"
  | ArgServicePlanIdPtr "ServicePlanId option"
  | ArgString string
  | ArgError "error option"
and error =
    ApiError string
  | Errorf string "fmt_arg list"
  | ResourceRequiresImport string WebAppId

section \<open>The remote API's types\<close>

text \<open>
  The fields of the SDK's request and response structs that the drivers read or write.
  A pointer field is an \<open>option\<close>. A \<open>block\<close> is a value the drivers hand on without
  looking inside (a site configuration, an identity, the properties of a sub-resource).
  \<open>Response\<close> is the HTTP status of the response, when there is one.
\<close>

type_synonym block = string

type_synonym Response = "nat option"

record SiteProperties =
  ServerFarmID :: "string option"
  Enabled :: "bool option"
  HTTPSOnly :: "bool option"
  SiteConfig :: "block option"
  ClientAffinityEnabled :: "bool option"
  ClientCertEnabled :: "bool option"
  ClientCertMode :: string
  CustomDomainVerificationID :: "string option"
  DefaultHostName :: "string option"
  OutboundIPAddresses :: "string option"
  PossibleOutboundIPAddresses :: "string option"

record Site =
  Response :: Response
  SiteProperties :: "SiteProperties option"
  Identity :: "block option"
  Kind :: "string option"
  Location :: "string option"
  Tags :: "(string \<times> string option) list"

record HostingEnvironmentProfile =
  ID :: "string option"

record AppServicePlan =
  HostingEnvironmentProfile :: "HostingEnvironmentProfile option"

record AppServiceEnvironment =
  DNSSuffix :: "string option"

record AppServiceEnvironmentResource =
  AppServiceEnvironment :: "AppServiceEnvironment option"

datatype CheckNameResourceTypes =
    CheckNameResourceTypesSite
  | CheckNameResourceTypesSlot
  | CheckNameResourceTypesHostingEnvironment
  | CheckNameResourceTypesPublishingUser
  | CheckNameResourceTypesMicrosoftWebsites

record ResourceNameAvailabilityRequest =
  Name :: "string option"
  Type :: CheckNameResourceTypes
  IsFqdn :: "bool option"

record ResourceNameAvailability =
  NameAvailable :: "bool option"
  Message :: "string option"

record StringDictionary =
  Properties :: "(string \<times> string option) list"

record SiteAuthSettings =
  SiteAuthSettingsProperties :: "block option"

record SiteLogsConfig =
  SiteLogsConfigProperties :: "block option"

record BackupRequest =
  Response :: Response
  BackupRequestProperties :: "block option"

record AzureStoragePropertyDictionaryResource =
  Properties :: "block option"

record ConnectionStringDictionary =
  Properties :: "block option"

record SiteConfigResource =
  SiteConfig :: "block option"

text \<open>
  A long-running operation: what waiting for it gives, and what its result is.
\<close>

record 'a Future =
  WaitForCompletionRef :: "error option"
  Result :: "'a \<times> error option"

section \<open>The configuration models\<close>

text \<open>\<open>WindowsWebAppModel\<close>, field by field. A slice is a list, \<open>nil\<close> the empty one.\<close>

record WindowsWebAppModel =
  Name :: string
  ResourceGroup :: string
  Location :: string
  ServicePlanId :: string
  AppSettings :: "(string \<times> string) list"
  AuthSettings :: "block list"
  Backup :: "block list"
  ClientAffinityEnabled :: bool
  ClientCertEnabled :: bool
  ClientCertMode :: string
  Enabled :: bool
  HttpsOnly :: bool
  Identity :: "block list"
  LogsConfig :: "block list"
  SiteConfig :: "block list"
  StorageAccounts :: "block list"
  ConnectionStrings :: "block list"
  CustomDomainVerificationId :: string
  DefaultHostname :: string
  Kind :: string
  OutboundIPAddresses :: string
  OutboundIPAddressList :: "string list"
  PossibleOutboundIPAddresses :: string
  PossibleOutboundIPAddressList :: "string list"
  SiteCredentials :: "block list"
  Tags :: "(string \<times> string) list"

text \<open>
  Modelled from the spec: \<open>LinuxWebAppModel\<close> is declared outside the files at hand;
  these are the fields the data source's \<open>Read\<close> decodes and assigns, with the types
  of the values it assigns to them.
\<close>

record LinuxWebAppModel =
  Name :: string
  ResourceGroup :: string
  Location :: string
  ServicePlanId :: string
  AppSettings :: "(string \<times> string) list"
  AuthSettings :: "block list"
  Backup :: "block list"
  ClientAffinityEnabled :: bool
  ClientCertEnabled :: bool
  ClientCertMode :: string
  Enabled :: bool
  HttpsOnly :: bool
  Identity :: "block list"
  LogsConfig :: "block list"
  SiteConfig :: "block list"
  StorageAccounts :: "block list"
  ConnectionStrings :: "block list"
  CustomDomainVerificationId :: string
  DefaultHostname :: string
  Kind :: string
  OutboundIPAddresses :: string
  OutboundIPAddressList :: "string list"
  PossibleOutboundIPAddresses :: string
  PossibleOutboundIPAddressList :: "string list"
  SiteCredentials :: "block list"
  Tags :: "(string \<times> string) list"

section \<open>What a driver does: events, results, sequencing\<close>

text \<open>
  Everything a driver does to the outside, in the order it does it: the calls on the
  three clients with their arguments, the waits on long-running operations, the log
  lines, and what it tells the plugin host. \<open>'m\<close> is the driver's model type.
\<close>

datatype 'm event =
    Get string string
  | ServicePlanGet string string
  | AppServiceEnvironmentGet string string
  | CheckNameAvailability ResourceNameAvailabilityRequest
  | CreateOrUpdate string string Site
  | WaitForCompletion
  | FutureResult
  | UpdateMetadata string string StringDictionary
  | UpdateApplicationSettings string string StringDictionary
  | UpdateAuthSettings string string SiteAuthSettings
  | UpdateDiagnosticLogsConfig string string SiteLogsConfig
  | UpdateBackupConfiguration string string BackupRequest
  | DeleteBackupConfiguration string string
  | UpdateAzureStorageAccounts string string AzureStoragePropertyDictionaryResource
  | UpdateConnectionStrings string string ConnectionStringDictionary
  | Delete string string "bool option" "bool option"
  | GetConfiguration string string
  | GetAuthSettings string string
  | GetBackupConfiguration string string
  | GetDiagnosticLogsConfiguration string string
  | ListApplicationSettings string string
  | ListAzureStorageAccounts string string
  | ListConnectionStrings string string
  | ListPublishingCredentials string string
  | ListMetadata string string
  | Warnf string "fmt_arg list"
  | Infof string "fmt_arg list"
  | SetID WebAppId
  | MarkAsGone WebAppId
  | Encode 'm

text \<open>
  How a piece of a driver ends: with a value, with a returned error, or in a run-time
  panic (a \<open>nil\<close> pointer dereferenced). A driver function returns \<open>error\<close>: \<open>Value ()\<close>
  is \<open>return nil\<close>.
\<close>

datatype 'a res = Value 'a | Raise error | Panic

type_synonym ('m, 'a) action = "'m event list \<times> 'a res"

definition ret :: "'a \<Rightarrow> ('m, 'a) action" where
  "ret x = ([], Value x)"

definition raise :: "error \<Rightarrow> ('m, 'a) action" where
  "raise e = ([], Raise e)"

definition panic :: "('m, 'a) action" where
  "panic = ([], Panic)"

text \<open>\<open>return err\<close> for an \<open>err\<close> that may be \<open>nil\<close>.\<close>

definition return_err :: "error option \<Rightarrow> ('m, unit) action" where
  "return_err err = (case err of None \<Rightarrow> ret () | Some e \<Rightarrow> raise e)"

text \<open>A call: the event, and what the other side answers.\<close>

definition call :: "'m event \<Rightarrow> 'a \<Rightarrow> ('m, 'a) action" where
  "call ev reply = ([ev], Value reply)"

text \<open>\<open>*p\<close> and \<open>p.Field\<close> on a pointer: a panic when \<open>p\<close> is \<open>nil\<close>.\<close>

definition deref :: "'a option \<Rightarrow> ('m, 'a) action" where
  "deref p = (case p of None \<Rightarrow> panic | Some x \<Rightarrow> ret x)"

text \<open>
  One statement after another: the second runs only when the first ended with a value;
  a returned error or a panic ends the driver there, with the events so far.
\<close>

definition thenDo :: "('m, 'a) action \<Rightarrow> ('a \<Rightarrow> ('m, 'b) action) \<Rightarrow> ('m, 'b) action" where
  "thenDo m f =
     (case snd m of
        Value x \<Rightarrow> (fst m @ fst (f x), snd (f x))
      | Raise e \<Rightarrow> (fst m, Raise e)
      | Panic \<Rightarrow> (fst m, Panic))"

text \<open>An \<open>if c { ... }\<close> with no \<open>else\<close>, after which the driver goes on.\<close>

definition ifThen :: "bool \<Rightarrow> ('m, unit) action \<Rightarrow> ('m, unit) action" where
  "ifThen c m = (if c then m else ret ())"

section \<open>The collaborators of the drivers\<close>

text \<open>
  The functions of the repository's other packages that the drivers call (\<open>parse\<close>,
  \<open>utils\<close>, \<open>location\<close>, \<open>tags\<close>, \<open>helpers\<close>), taken as they are typed at the call
  sites. A function that returns a pointer and an error returns a pair; a function
  that returns a pointer may return \<open>nil\<close>.
\<close>

record Packages =
  WebAppID :: "string \<Rightarrow> WebAppId option \<times> error option"
  ServicePlanID :: "string \<Rightarrow> ServicePlanId option \<times> error option"
  AppServiceEnvironmentID :: "string \<Rightarrow> AppServiceEnvironmentId option \<times> error option"
  ResponseWasNotFound :: "Response \<Rightarrow> bool"
  NormalizeNilableString :: "string option \<Rightarrow> string"
  NormalizeNilable :: "string option \<Rightarrow> string"
  FromTypedObject :: "(string \<times> string) list \<Rightarrow> (string \<times> string option) list"
  ToTypedObject :: "(string \<times> string option) list \<Rightarrow> (string \<times> string) list"
  ExpandSiteConfigWindows :: "block list \<Rightarrow> block option \<times> string option \<times> error option"
  ExpandIdentity :: "block list \<Rightarrow> block option"
  ExpandAppSettings :: "(string \<times> string) list \<Rightarrow> StringDictionary option"
  ExpandAuthSettings :: "block list \<Rightarrow> SiteAuthSettings option"
  ExpandLogsConfig :: "block list \<Rightarrow> SiteLogsConfig option"
  ExpandBackupConfig :: "block list \<Rightarrow> BackupRequest option"
  ExpandStorageConfig :: "block list \<Rightarrow> AzureStoragePropertyDictionaryResource option"
  ExpandConnectionStrings :: "block list \<Rightarrow> ConnectionStringDictionary option"
  FlattenAppSettings :: "StringDictionary \<Rightarrow> (string \<times> string) list"
  FlattenAuthSettings :: "SiteAuthSettings \<Rightarrow> block list"
  FlattenBackupConfig :: "BackupRequest \<Rightarrow> block list"
  FlattenIdentity :: "block option \<Rightarrow> block list"
  FlattenLogsConfig :: "SiteLogsConfig \<Rightarrow> block list"
  FlattenSiteConfigWindows :: "block option \<Rightarrow> string \<Rightarrow> block list"
  FlattenSiteConfigLinux :: "block option \<Rightarrow> block list"
  FlattenStorageAccounts :: "AzureStoragePropertyDictionaryResource \<Rightarrow> block list"
  FlattenConnectionStrings :: "ConnectionStringDictionary \<Rightarrow> block list"
  FlattenSiteCredentials :: "block \<Rightarrow> block list"

text \<open>
  \<open>metadata.Client\<close>: the subscription and, for every method the drivers call on the
  web-apps, service-plan and environment clients, what the remote side answers to the
  given arguments (the value and the error, as the method returns them).
\<close>

record Client =
  Account_SubscriptionId :: string
  WebAppsClient_Get :: "string \<Rightarrow> string \<Rightarrow> Site \<times> error option"
  ServicePlanClient_Get :: "string \<Rightarrow> string \<Rightarrow> AppServicePlan \<times> error option"
  AppServiceEnvironmentClient_Get ::
    "string \<Rightarrow> string \<Rightarrow> AppServiceEnvironmentResource \<times> error option"
  WebAppsClient_CheckNameAvailability ::
    "ResourceNameAvailabilityRequest \<Rightarrow> ResourceNameAvailability \<times> error option"
  WebAppsClient_CreateOrUpdate :: "string \<Rightarrow> string \<Rightarrow> Site \<Rightarrow> Site Future \<times> error option"
  WebAppsClient_UpdateMetadata ::
    "string \<Rightarrow> string \<Rightarrow> StringDictionary \<Rightarrow> StringDictionary \<times> error option"
  WebAppsClient_UpdateApplicationSettings ::
    "string \<Rightarrow> string \<Rightarrow> StringDictionary \<Rightarrow> StringDictionary \<times> error option"
  WebAppsClient_UpdateAuthSettings ::
    "string \<Rightarrow> string \<Rightarrow> SiteAuthSettings \<Rightarrow> SiteAuthSettings \<times> error option"
  WebAppsClient_UpdateDiagnosticLogsConfig ::
    "string \<Rightarrow> string \<Rightarrow> SiteLogsConfig \<Rightarrow> SiteLogsConfig \<times> error option"
  WebAppsClient_UpdateBackupConfiguration ::
    "string \<Rightarrow> string \<Rightarrow> BackupRequest \<Rightarrow> BackupRequest \<times> error option"
  WebAppsClient_DeleteBackupConfiguration :: "string \<Rightarrow> string \<Rightarrow> Response \<times> error option"
  WebAppsClient_UpdateAzureStorageAccounts ::
    "string \<Rightarrow> string \<Rightarrow> AzureStoragePropertyDictionaryResource
      \<Rightarrow> AzureStoragePropertyDictionaryResource \<times> error option"
  WebAppsClient_UpdateConnectionStrings ::
    "string \<Rightarrow> string \<Rightarrow> ConnectionStringDictionary
      \<Rightarrow> ConnectionStringDictionary \<times> error option"
  WebAppsClient_Delete ::
    "string \<Rightarrow> string \<Rightarrow> bool option \<Rightarrow> bool option \<Rightarrow> Response \<times> error option"
  WebAppsClient_GetConfiguration :: "string \<Rightarrow> string \<Rightarrow> SiteConfigResource \<times> error option"
  WebAppsClient_GetAuthSettings :: "string \<Rightarrow> string \<Rightarrow> SiteAuthSettings \<times> error option"
  WebAppsClient_GetBackupConfiguration :: "string \<Rightarrow> string \<Rightarrow> BackupRequest \<times> error option"
  WebAppsClient_GetDiagnosticLogsConfiguration ::
    "string \<Rightarrow> string \<Rightarrow> SiteLogsConfig \<times> error option"
  WebAppsClient_ListApplicationSettings ::
    "string \<Rightarrow> string \<Rightarrow> StringDictionary \<times> error option"
  WebAppsClient_ListAzureStorageAccounts ::
    "string \<Rightarrow> string \<Rightarrow> AzureStoragePropertyDictionaryResource \<times> error option"
  WebAppsClient_ListConnectionStrings ::
    "string \<Rightarrow> string \<Rightarrow> ConnectionStringDictionary \<times> error option"
  WebAppsClient_ListPublishingCredentials ::
    "string \<Rightarrow> string \<Rightarrow> block Future \<times> error option"
  WebAppsClient_ListMetadata :: "string \<Rightarrow> string \<Rightarrow> StringDictionary \<times> error option"

text \<open>
  \<open>sdk.ResourceMetaData\<close>, as far as the drivers use it: what \<open>Decode\<close> gives, the
  stored identifier, which fields changed, what \<open>Encode\<close> answers, and the clients.
\<close>

record 'm ResourceMetaData =
  Decode :: "'m \<times> error option"
  ResourceData_Id :: string
  ResourceData_HasChange :: "string \<Rightarrow> bool"
  Encode_reply :: "'m \<Rightarrow> error option"
  Client :: Client

text \<open>A method call with two, three or four arguments: the event, then the answer.\<close>

definition call2 ::
  "('a \<Rightarrow> 'b \<Rightarrow> 'm event) \<Rightarrow> ('a \<Rightarrow> 'b \<Rightarrow> 'r) \<Rightarrow> 'a \<Rightarrow> 'b \<Rightarrow> ('m, 'r) action" where
  "call2 ev answer a b = call (ev a b) (answer a b)"

definition call3 ::
  "('a \<Rightarrow> 'b \<Rightarrow> 'c \<Rightarrow> 'm event) \<Rightarrow> ('a \<Rightarrow> 'b \<Rightarrow> 'c \<Rightarrow> 'r) \<Rightarrow> 'a \<Rightarrow> 'b \<Rightarrow> 'c
    \<Rightarrow> ('m, 'r) action" where
  "call3 ev answer a b c = call (ev a b c) (answer a b c)"

definition call4 ::
  "('a \<Rightarrow> 'b \<Rightarrow> 'c \<Rightarrow> 'd \<Rightarrow> 'm event) \<Rightarrow> ('a \<Rightarrow> 'b \<Rightarrow> 'c \<Rightarrow> 'd \<Rightarrow> 'r) \<Rightarrow> 'a \<Rightarrow> 'b \<Rightarrow> 'c \<Rightarrow> 'd
    \<Rightarrow> ('m, 'r) action" where
  "call4 ev answer a b c d = call (ev a b c d) (answer a b c d)"

section \<open>The Windows web app resource\<close>

definition ResourceType :: string where
  "ResourceType = ''azurerm_windows_web_app''"

subsection \<open>Delete\<close>

definition WindowsWebAppResource_Delete ::
  "Packages \<Rightarrow> WindowsWebAppModel ResourceMetaData \<Rightarrow> (WindowsWebAppModel, unit) action" where
  "WindowsWebAppResource_Delete pkg metadata =
     (let client = Client metadata;
          (id, err) = WebAppID pkg (ResourceData_Id metadata)
      in
      if err \<noteq> None then return_err err
      else
      thenDo (deref id) (\<lambda>id_v.
      thenDo (call (Infof ''deleting %s'' [ArgWebAppId id_v]) ()) (\<lambda>_.
      let deleteMetrics = True;
          deleteEmptyServerFarm = False
      in
      thenDo (call4 Delete (WebAppsClient_Delete client)
                (WebAppId.ResourceGroup id_v) (SiteName id_v)
                (Some deleteMetrics) (Some deleteEmptyServerFarm)) (\<lambda>(_, err).
      if err \<noteq> None then
        raise (Errorf ''deleting Windows %s: %+v'' [ArgWebAppIdPtr id, ArgError err])
      else ret ()))))"

subsection \<open>Create\<close>

text \<open>
  The last stretch of \<open>Create\<close>, after \<open>metadata.SetID(id)\<close>: the optional sub-resource
  groups, one after the other.
\<close>

definition Create_subresources ::
  "Packages \<Rightarrow> Client \<Rightarrow> WebAppId \<Rightarrow> WindowsWebAppModel \<Rightarrow> (WindowsWebAppModel, unit) action" where
  "Create_subresources pkg client id_v webApp =
     (let rg = WebAppId.ResourceGroup id_v;
          site = SiteName id_v
      in
      let appSettings = ExpandAppSettings pkg (WindowsWebAppModel.AppSettings webApp)
      in
      thenDo
        (case appSettings of
           None \<Rightarrow> ret ()
         | Some appSettings_v \<Rightarrow>
             thenDo (call3 UpdateApplicationSettings
                       (WebAppsClient_UpdateApplicationSettings client) rg site appSettings_v)
               (\<lambda>(_, err).
             if err \<noteq> None then
               raise (Errorf ''setting App Settings for Windows %s: %+v''
                        [ArgWebAppId id_v, ArgError err])
             else ret ())) (\<lambda>_.
      let auth = ExpandAuthSettings pkg (WindowsWebAppModel.AuthSettings webApp)
      in
      thenDo (deref auth) (\<lambda>auth_v.
      thenDo
        (ifThen (SiteAuthSettingsProperties auth_v \<noteq> None)
           (thenDo (call3 UpdateAuthSettings (WebAppsClient_UpdateAuthSettings client) rg site
                      auth_v) (\<lambda>(_, err).
            if err \<noteq> None then
              raise (Errorf ''setting Authorisation Settings for %s: %+v''
                       [ArgWebAppId id_v, ArgError err])
            else ret ()))) (\<lambda>_.
      let logsConfig = ExpandLogsConfig pkg (WindowsWebAppModel.LogsConfig webApp)
      in
      thenDo (deref logsConfig) (\<lambda>logsConfig_v.
      thenDo
        (ifThen (SiteLogsConfigProperties logsConfig_v \<noteq> None)
           (thenDo (call3 UpdateDiagnosticLogsConfig
                      (WebAppsClient_UpdateDiagnosticLogsConfig client) rg site logsConfig_v)
              (\<lambda>(_, err).
            if err \<noteq> None then
              raise (Errorf ''setting Diagnostic Logs Configuration for Windows %s: %+v''
                       [ArgWebAppId id_v, ArgError err])
            else ret ()))) (\<lambda>_.
      let backupConfig = ExpandBackupConfig pkg (WindowsWebAppModel.Backup webApp)
      in
      thenDo (deref backupConfig) (\<lambda>backupConfig_v.
      thenDo
        (ifThen (BackupRequestProperties backupConfig_v \<noteq> None)
           (thenDo (call3 UpdateBackupConfiguration
                      (WebAppsClient_UpdateBackupConfiguration client) rg site backupConfig_v)
              (\<lambda>(_, err).
            if err \<noteq> None then
              raise (Errorf ''adding Backup Settings for Windows %s: %+v''
                       [ArgWebAppId id_v, ArgError err])
            else ret ()))) (\<lambda>_.
      let storageConfig = ExpandStorageConfig pkg (WindowsWebAppModel.StorageAccounts webApp)
      in
      thenDo (deref storageConfig) (\<lambda>storageConfig_v.
      thenDo
        (ifThen (AzureStoragePropertyDictionaryResource.Properties storageConfig_v \<noteq> None)
           (thenDo (call3 UpdateAzureStorageAccounts
                      (WebAppsClient_UpdateAzureStorageAccounts client) rg site storageConfig_v)
              (\<lambda>(_, err).
            if err \<noteq> None then
              (if err \<noteq> None then
                 raise (Errorf ''setting Storage Accounts for Windows %s: %+v''
                          [ArgWebAppId id_v, ArgError err])
               else ret ())
            else ret ()))) (\<lambda>_.
      let connectionStrings =
            ExpandConnectionStrings pkg (WindowsWebAppModel.ConnectionStrings webApp)
      in
      thenDo (deref connectionStrings) (\<lambda>connectionStrings_v.
      thenDo
        (ifThen (ConnectionStringDictionary.Properties connectionStrings_v \<noteq> None)
           (thenDo (call3 UpdateConnectionStrings
                      (WebAppsClient_UpdateConnectionStrings client) rg site
                      connectionStrings_v) (\<lambda>(_, err).
            if err \<noteq> None then
              raise (Errorf ''setting Connection Strings for Windows %s: %+v''
                       [ArgWebAppId id_v, ArgError err])
            else ret ()))) (\<lambda>_.
      ret ()))))))))))))"

definition WindowsWebAppResource_Create ::
  "Packages \<Rightarrow> WindowsWebAppModel ResourceMetaData \<Rightarrow> (WindowsWebAppModel, unit) action" where
  "WindowsWebAppResource_Create pkg metadata =
     (let (webApp, err) = Decode metadata
      in
      if err \<noteq> None then return_err err
      else
      let client = Client metadata;
          subscriptionId = Account_SubscriptionId client;
          id = NewWebAppID subscriptionId (WindowsWebAppModel.ResourceGroup webApp)
                 (WindowsWebAppModel.Name webApp);
          rg = WebAppId.ResourceGroup id;
          site = SiteName id
      in
      thenDo (call2 Get (WebAppsClient_Get client) rg site) (\<lambda>(existing, err).
      if err \<noteq> None \<and> \<not> ResponseWasNotFound pkg (Site.Response existing) then
        raise (Errorf ''checking for presence of existing Windows %s: %+v''
                 [ArgWebAppId id, ArgError err])
      else
      if \<not> ResponseWasNotFound pkg (Site.Response existing) then
        raise (ResourceRequiresImport ResourceType id)
      else
      let availabilityRequest =
            \<lparr>ResourceNameAvailabilityRequest.Name = Some (WindowsWebAppModel.Name webApp),
             Type = CheckNameResourceTypesMicrosoftWebsites,
             IsFqdn = None\<rparr>;
          (servicePlanId, err) = ServicePlanID pkg (WindowsWebAppModel.ServicePlanId webApp)
      in
      if err \<noteq> None then return_err err
      else
      thenDo (deref servicePlanId) (\<lambda>servicePlanId_v.
      thenDo (call2 ServicePlanGet (ServicePlanClient_Get client)
                (ServicePlanId.ResourceGroup servicePlanId_v)
                (ServerfarmName servicePlanId_v)) (\<lambda>(servicePlan, err).
      if err \<noteq> None then
        raise (Errorf ''reading App %s: %+v'' [ArgServicePlanIdPtr servicePlanId, ArgError err])
      else
      thenDo
        (case HostingEnvironmentProfile servicePlan of
           None \<Rightarrow> ret availabilityRequest
         | Some ase \<Rightarrow>
             thenDo
               (case ID ase of
                  None \<Rightarrow> ret ''appserviceenvironment.net''
                | Some aseIdStr \<Rightarrow>
                    let (aseId, err) = AppServiceEnvironmentID pkg aseIdStr
                    in
                    thenDo (deref aseId) (\<lambda>aseId_v.
                    let nameSuffix =
                          HostingEnvironmentName aseId_v @ ''.'' @ ''appserviceenvironment.net''
                    in
                    if err \<noteq> None then
                      thenDo (call (Warnf
                          ''could not parse App Service Environment ID determine FQDN for name availability check, defaulting to `%s.%s.appserviceenvironment.net`''
                          [ArgString (WindowsWebAppModel.Name webApp),
                           ArgServicePlanIdPtr servicePlanId]) ()) (\<lambda>_.
                      ret nameSuffix)
                    else
                      thenDo (call2 AppServiceEnvironmentGet
                                (AppServiceEnvironmentClient_Get client)
                                (AppServiceEnvironmentId.ResourceGroup aseId_v)
                                (HostingEnvironmentName aseId_v)) (\<lambda>(existingASE, err).
                      if err \<noteq> None then
                        thenDo (call (Warnf
                            ''could not read App Service Environment to determine FQDN for name availability check, defaulting to `%s.%s.appserviceenvironment.net`''
                            [ArgString (WindowsWebAppModel.Name webApp),
                             ArgServicePlanIdPtr servicePlanId]) ()) (\<lambda>_.
                        ret nameSuffix)
                      else
                        (case AppServiceEnvironment existingASE of
                           None \<Rightarrow> ret nameSuffix
                         | Some props \<Rightarrow>
                             (case DNSSuffix props of
                                None \<Rightarrow> ret nameSuffix
                              | Some dnsSuffix \<Rightarrow>
                                  if dnsSuffix \<noteq> [] then ret dnsSuffix
                                  else ret nameSuffix)))))
               (\<lambda>nameSuffix.
               ret (availabilityRequest
                     \<lparr>ResourceNameAvailabilityRequest.Name :=
                        Some (WindowsWebAppModel.Name webApp @ ''.''
                              @ ServerfarmName servicePlanId_v @ ''.'' @ nameSuffix),
                      IsFqdn := Some True\<rparr>)))
        (\<lambda>availabilityRequest.
      thenDo (call (CheckNameAvailability availabilityRequest)
                (WebAppsClient_CheckNameAvailability client availabilityRequest))
        (\<lambda>(checkName, err).
      if err \<noteq> None then
        raise (Errorf ''checking name availability for %s: %+v'' [ArgWebAppId id, ArgError err])
      else
      thenDo (deref (NameAvailable checkName)) (\<lambda>nameAvailable.
      thenDo
        (if \<not> nameAvailable then
           thenDo (deref (Message checkName)) (\<lambda>message.
           raise (Errorf ''the Site Name %q failed the availability check: %+v''
                    [ArgString (SiteName id), ArgString message]))
         else ret ()) (\<lambda>_.
      let (siteConfig, currentStack, err) =
            ExpandSiteConfigWindows pkg (WindowsWebAppModel.SiteConfig webApp)
      in
      if err \<noteq> None then return_err err
      else
      let siteEnvelope =
            \<lparr>Site.Response = None,
             SiteProperties = Some
               \<lparr>ServerFarmID = Some (WindowsWebAppModel.ServicePlanId webApp),
                SiteProperties.Enabled = Some (WindowsWebAppModel.Enabled webApp),
                HTTPSOnly = Some (WindowsWebAppModel.HttpsOnly webApp),
                SiteProperties.SiteConfig = siteConfig,
                SiteProperties.ClientAffinityEnabled =
                  Some (WindowsWebAppModel.ClientAffinityEnabled webApp),
                SiteProperties.ClientCertEnabled =
                  Some (WindowsWebAppModel.ClientCertEnabled webApp),
                SiteProperties.ClientCertMode = WindowsWebAppModel.ClientCertMode webApp,
                CustomDomainVerificationID = None,
                DefaultHostName = None,
                SiteProperties.OutboundIPAddresses = None,
                SiteProperties.PossibleOutboundIPAddresses = None\<rparr>,
             Site.Identity = None,
             Site.Kind = None,
             Site.Location = Some (WindowsWebAppModel.Location webApp),
             Site.Tags = FromTypedObject pkg (WindowsWebAppModel.Tags webApp)\<rparr>;
          identity = ExpandIdentity pkg (WindowsWebAppModel.Identity webApp);
          siteEnvelope =
            (if identity \<noteq> None then siteEnvelope\<lparr>Site.Identity := identity\<rparr>
             else siteEnvelope)
      in
      thenDo (call3 CreateOrUpdate (WebAppsClient_CreateOrUpdate client) rg site siteEnvelope)
        (\<lambda>(future, err).
      if err \<noteq> None then
        raise (Errorf ''creating Windows %s: %+v'' [ArgWebAppId id, ArgError err])
      else
      thenDo (call WaitForCompletion (WaitForCompletionRef future)) (\<lambda>err.
      if err \<noteq> None then
        raise (Errorf ''waiting for creation of Windows %s: %+v'' [ArgWebAppId id, ArgError err])
      else
      thenDo
        (ifThen (currentStack \<noteq> None \<and> currentStack \<noteq> Some [])
           (let siteMetadata =
                  \<lparr>StringDictionary.Properties = [(''CURRENT_STACK'', currentStack)]\<rparr>
            in
            thenDo (call3 UpdateMetadata (WebAppsClient_UpdateMetadata client) rg site
                      siteMetadata) (\<lambda>(_, err).
            if err \<noteq> None then
              raise (Errorf ''setting Site Metadata for Current Stack on Windows %s: %+v''
                       [ArgWebAppId id, ArgError err])
            else ret ()))) (\<lambda>_.
      thenDo (call (SetID id) ()) (\<lambda>_.
      Create_subresources pkg client id webApp))))))))))))"

subsection \<open>Read\<close>

text \<open>
  \<open>strings.Split(s, sep)\<close> for a separator of one character, the only way the drivers
  call it: the pieces between the separators, one (empty) piece for the empty string.
\<close>

fun strings_Split :: "string \<Rightarrow> char \<Rightarrow> string list" where
  "strings_Split [] sep = [[]]"
| "strings_Split (c # cs) sep =
     (if c = sep then [] # strings_Split cs sep
      else (case strings_Split cs sep of
              [] \<Rightarrow> [[c]]
            | w # ws \<Rightarrow> (c # w) # ws))"

text \<open>
  Modelled from the spec: \<open>metadata.MarkAsGone\<close> belongs to the plugin SDK, outside the
  files at hand. A missing object is treated as resource gone: the local state is
  removed and no error comes back.
\<close>

definition metadata_MarkAsGone :: "WebAppId \<Rightarrow> ('m, unit) action" where
  "metadata_MarkAsGone id_v = call (MarkAsGone id_v) ()"

text \<open>
  The two guarded assignments of \<open>Read\<close>: \<open>if v := p; v != nil { state.F = *v }\<close> for a
  pointer, and \<open>if x := e; x != nil { state.F = x }\<close> for a slice (for a string:
  \<open>if s != "" { state.F = s }\<close>).
\<close>

definition if_not_nil :: "'a option \<Rightarrow> ('a \<Rightarrow> 's \<Rightarrow> 's) \<Rightarrow> 's \<Rightarrow> 's" where
  "if_not_nil p assign state = (case p of None \<Rightarrow> state | Some v \<Rightarrow> assign v state)"

definition if_not_empty :: "'a list \<Rightarrow> ('a list \<Rightarrow> 's \<Rightarrow> 's) \<Rightarrow> 's \<Rightarrow> 's" where
  "if_not_empty x assign state = (if x \<noteq> [] then assign x state else state)"

text \<open>
  The state that \<open>Read\<close> builds from the answers, in the two stretches of assignments
  that the look-up of the current stack separates: first the struct literal and the
  guarded assignments from the site, its properties, the auth, backup and logs
  answers; then the site configuration, storage accounts, connection strings and
  site credentials.
\<close>

definition Read_state ::
  "Packages \<Rightarrow> WebAppId \<Rightarrow> Site \<Rightarrow> SiteProperties \<Rightarrow> StringDictionary \<Rightarrow> SiteAuthSettings
     \<Rightarrow> BackupRequest \<Rightarrow> SiteLogsConfig \<Rightarrow> WindowsWebAppModel" where
  "Read_state pkg id_v webApp webAppProps appSettings auth backup logsConfig =
     (let state =
            \<lparr>WindowsWebAppModel.Name = SiteName id_v,
               WindowsWebAppModel.ResourceGroup = WebAppId.ResourceGroup id_v,
               WindowsWebAppModel.Location = NormalizeNilable pkg (Site.Location webApp),
               WindowsWebAppModel.ServicePlanId = [],
               WindowsWebAppModel.AppSettings = FlattenAppSettings pkg appSettings,
               WindowsWebAppModel.AuthSettings = [],
               WindowsWebAppModel.Backup = [],
               WindowsWebAppModel.ClientAffinityEnabled = False,
               WindowsWebAppModel.ClientCertEnabled = False,
               WindowsWebAppModel.ClientCertMode = [],
               WindowsWebAppModel.Enabled = False,
               WindowsWebAppModel.HttpsOnly = False,
               WindowsWebAppModel.Identity = [],
               WindowsWebAppModel.LogsConfig = [],
               WindowsWebAppModel.SiteConfig = [],
               WindowsWebAppModel.StorageAccounts = [],
               WindowsWebAppModel.ConnectionStrings = [],
               WindowsWebAppModel.CustomDomainVerificationId = [],
               WindowsWebAppModel.DefaultHostname = [],
               WindowsWebAppModel.Kind = [],
               WindowsWebAppModel.OutboundIPAddresses = [],
               WindowsWebAppModel.OutboundIPAddressList = [],
               WindowsWebAppModel.PossibleOutboundIPAddresses = [],
               WindowsWebAppModel.PossibleOutboundIPAddressList = [],
               WindowsWebAppModel.SiteCredentials = [],
               WindowsWebAppModel.Tags = ToTypedObject pkg (Site.Tags webApp)\<rparr>;
          state = if_not_nil (ServerFarmID webAppProps)
                    (\<lambda>v state. state\<lparr>WindowsWebAppModel.ServicePlanId := v\<rparr>) state;
          state = if_not_nil (SiteProperties.ClientAffinityEnabled webAppProps)
                    (\<lambda>v state. state\<lparr>WindowsWebAppModel.ClientAffinityEnabled := v\<rparr>) state;
          state = if_not_nil (SiteProperties.ClientCertEnabled webAppProps)
                    (\<lambda>v state. state\<lparr>WindowsWebAppModel.ClientCertEnabled := v\<rparr>) state;
          state = if_not_empty (SiteProperties.ClientCertMode webAppProps)
                    (\<lambda>v state. state\<lparr>WindowsWebAppModel.ClientCertMode := v\<rparr>) state;
          state = if_not_nil (SiteProperties.Enabled webAppProps)
                    (\<lambda>v state. state\<lparr>WindowsWebAppModel.Enabled := v\<rparr>) state;
          state = if_not_nil (HTTPSOnly webAppProps)
                    (\<lambda>v state. state\<lparr>WindowsWebAppModel.HttpsOnly := v\<rparr>) state;
          state = if_not_nil (CustomDomainVerificationID webAppProps)
                    (\<lambda>v state. state\<lparr>WindowsWebAppModel.CustomDomainVerificationId := v\<rparr>)
                    state;
          state = if_not_nil (DefaultHostName webAppProps)
                    (\<lambda>v state. state\<lparr>WindowsWebAppModel.DefaultHostname := v\<rparr>) state;
          state = if_not_nil (Site.Kind webApp)
                    (\<lambda>v state. state\<lparr>WindowsWebAppModel.Kind := v\<rparr>) state;
          state = if_not_nil (SiteProperties.OutboundIPAddresses webAppProps)
                    (\<lambda>v state.
                       state\<lparr>WindowsWebAppModel.OutboundIPAddresses := v,
                             WindowsWebAppModel.OutboundIPAddressList :=
                               strings_Split v (CHR '','')\<rparr>) state;
          state = if_not_nil (SiteProperties.PossibleOutboundIPAddresses webAppProps)
                    (\<lambda>v state.
                       state\<lparr>WindowsWebAppModel.PossibleOutboundIPAddresses := v,
                             WindowsWebAppModel.PossibleOutboundIPAddressList :=
                               strings_Split v (CHR '','')\<rparr>) state;
          state = if_not_empty (FlattenAuthSettings pkg auth)
                    (\<lambda>appAuthSettings state.
                       state\<lparr>WindowsWebAppModel.AuthSettings := appAuthSettings\<rparr>) state;
          state = if_not_empty (FlattenBackupConfig pkg backup)
                    (\<lambda>appBackupSettings state.
                       state\<lparr>WindowsWebAppModel.Backup := appBackupSettings\<rparr>) state;
          state = if_not_empty (FlattenIdentity pkg (Site.Identity webApp))
                    (\<lambda>identity state. state\<lparr>WindowsWebAppModel.Identity := identity\<rparr>) state;
          state = if_not_empty (FlattenLogsConfig pkg logsConfig)
                    (\<lambda>logs state. state\<lparr>WindowsWebAppModel.LogsConfig := logs\<rparr>) state
      in state)"

definition Read_state_rest ::
  "Packages \<Rightarrow> SiteConfigResource \<Rightarrow> string \<Rightarrow> AzureStoragePropertyDictionaryResource
     \<Rightarrow> ConnectionStringDictionary \<Rightarrow> block \<Rightarrow> WindowsWebAppModel \<Rightarrow> WindowsWebAppModel" where
  "Read_state_rest pkg webAppSiteConfig currentStack storageAccounts connectionStrings
     siteCredentials state =
     (let state = if_not_empty
                    (FlattenSiteConfigWindows pkg
                       (SiteConfigResource.SiteConfig webAppSiteConfig) currentStack)
                    (\<lambda>siteConfig state. state\<lparr>WindowsWebAppModel.SiteConfig := siteConfig\<rparr>)
                    state;
          state = if_not_empty (FlattenStorageAccounts pkg storageAccounts)
                    (\<lambda>appStorageAccounts state.
                       state\<lparr>WindowsWebAppModel.StorageAccounts := appStorageAccounts\<rparr>)
                    state;
          state = if_not_empty (FlattenConnectionStrings pkg connectionStrings)
                    (\<lambda>appConnectionStrings state.
                       state\<lparr>WindowsWebAppModel.ConnectionStrings := appConnectionStrings\<rparr>)
                    state;
          state = state\<lparr>WindowsWebAppModel.SiteCredentials :=
                          FlattenSiteCredentials pkg siteCredentials\<rparr>
      in state)"

definition WindowsWebAppResource_Read ::
  "Packages \<Rightarrow> WindowsWebAppModel ResourceMetaData \<Rightarrow> (WindowsWebAppModel, unit) action" where
  "WindowsWebAppResource_Read pkg metadata =
     (let client = Client metadata;
          (id, err) = WebAppID pkg (ResourceData_Id metadata)
      in
      if err \<noteq> None then return_err err
      else
      thenDo (deref id) (\<lambda>id_v.
      let rg = WebAppId.ResourceGroup id_v;
          site = SiteName id_v
      in
      thenDo (call2 Get (WebAppsClient_Get client) rg site) (\<lambda>(webApp, err).
      if err \<noteq> None then
        (if ResponseWasNotFound pkg (Site.Response webApp) then metadata_MarkAsGone id_v
         else raise (Errorf ''reading Windows %s: %+v'' [ArgWebAppIdPtr id, ArgError err]))
      else
      if SiteProperties webApp = None then
        raise (Errorf ''reading properties of Windows %s'' [ArgWebAppIdPtr id])
      else
      thenDo (call2 GetConfiguration (WebAppsClient_GetConfiguration client) rg site)
        (\<lambda>(webAppSiteConfig, err).
      if err \<noteq> None then
        raise (Errorf ''reading Site Config for Windows %s: %+v''
                 [ArgWebAppIdPtr id, ArgError err])
      else
      thenDo (call2 GetAuthSettings (WebAppsClient_GetAuthSettings client) rg site)
        (\<lambda>(auth, err).
      if err \<noteq> None then
        raise (Errorf ''reading Auth Settings for Windows %s: %+v''
                 [ArgWebAppIdPtr id, ArgError err])
      else
      thenDo (call2 GetBackupConfiguration (WebAppsClient_GetBackupConfiguration client) rg site)
        (\<lambda>(backup, err).
      if err \<noteq> None \<and> \<not> ResponseWasNotFound pkg (BackupRequest.Response backup) then
        raise (Errorf ''reading Backup Settings for Windows %s: %+v''
                 [ArgWebAppIdPtr id, ArgError err])
      else
      thenDo (call2 GetDiagnosticLogsConfiguration
                (WebAppsClient_GetDiagnosticLogsConfiguration client) rg site)
        (\<lambda>(logsConfig, err).
      if err \<noteq> None then
        raise (Errorf ''reading Diagnostic Logs information for Windows %s: %+v''
                 [ArgWebAppIdPtr id, ArgError err])
      else
      thenDo (call2 ListApplicationSettings (WebAppsClient_ListApplicationSettings client)
                rg site) (\<lambda>(appSettings, err).
      if err \<noteq> None then
        raise (Errorf ''reading App Settings for Windows %s: %+v''
                 [ArgWebAppIdPtr id, ArgError err])
      else
      thenDo (call2 ListAzureStorageAccounts (WebAppsClient_ListAzureStorageAccounts client)
                rg site) (\<lambda>(storageAccounts, err).
      if err \<noteq> None then
        raise (Errorf ''reading Storage Account information for Windows %s: %+v''
                 [ArgWebAppIdPtr id, ArgError err])
      else
      thenDo (call2 ListConnectionStrings (WebAppsClient_ListConnectionStrings client)
                rg site) (\<lambda>(connectionStrings, err).
      if err \<noteq> None then
        raise (Errorf ''reading Connection String information for Windows %s: %+v''
                 [ArgWebAppIdPtr id, ArgError err])
      else
      thenDo (call2 ListPublishingCredentials (WebAppsClient_ListPublishingCredentials client)
                rg site) (\<lambda>(siteCredentialsFuture, err).
      if err \<noteq> None then
        raise (Errorf ''listing Site Publishing Credential information for Windows %s: %+v''
                 [ArgWebAppIdPtr id, ArgError err])
      else
      thenDo (call WaitForCompletion (WaitForCompletionRef siteCredentialsFuture)) (\<lambda>err.
      if err \<noteq> None then
        raise (Errorf ''waiting for Site Publishing Credential information for Windows %s: %+v''
                 [ArgWebAppIdPtr id, ArgError err])
      else
      thenDo (call FutureResult (Result siteCredentialsFuture)) (\<lambda>(siteCredentials, err).
      if err \<noteq> None then
        raise (Errorf ''reading Site Publishing Credential information for Windows %s: %+v''
                 [ArgWebAppIdPtr id, ArgError err])
      else
      thenDo (call2 ListMetadata (WebAppsClient_ListMetadata client) rg site)
        (\<lambda>(siteMetadata, err).
      if err \<noteq> None then
        raise (Errorf ''reading Site Metadata for Windows %s: %+v''
                 [ArgWebAppIdPtr id, ArgError err])
      else
      thenDo (deref (SiteProperties webApp)) (\<lambda>webAppProps.
      let state = Read_state pkg id_v webApp webAppProps appSettings auth backup logsConfig
      in
      thenDo
        (case map_of (StringDictionary.Properties siteMetadata) ''CURRENT_STACK'' of
           None \<Rightarrow> ret []
         | Some currentStackPtr \<Rightarrow> deref currentStackPtr) (\<lambda>currentStack.
      let state = Read_state_rest pkg webAppSiteConfig currentStack storageAccounts
                    connectionStrings siteCredentials state
      in
      thenDo (call (Encode state) (Encode_reply metadata state)) return_err))))))))))))))))"

subsection \<open>Update\<close>

definition WindowsWebAppResource_Update ::
  "Packages \<Rightarrow> WindowsWebAppModel ResourceMetaData \<Rightarrow> (WindowsWebAppModel, unit) action" where
  "WindowsWebAppResource_Update pkg metadata =
     (let client = Client metadata;
          (id, err) = WebAppID pkg (ResourceData_Id metadata)
      in
      if err \<noteq> None then return_err err
      else
      let (state, err) = Decode metadata
      in
      if err \<noteq> None then raise (Errorf ''decoding: %+v'' [ArgError err])
      else
      let site =
            \<lparr>Site.Response = None,
             SiteProperties = Some
               \<lparr>ServerFarmID = Some (WindowsWebAppModel.ServicePlanId state),
                SiteProperties.Enabled = Some (WindowsWebAppModel.Enabled state),
                HTTPSOnly = Some (WindowsWebAppModel.HttpsOnly state),
                SiteProperties.SiteConfig = None,
                SiteProperties.ClientAffinityEnabled =
                  Some (WindowsWebAppModel.ClientAffinityEnabled state),
                SiteProperties.ClientCertEnabled =
                  Some (WindowsWebAppModel.ClientCertEnabled state),
                SiteProperties.ClientCertMode = WindowsWebAppModel.ClientCertMode state,
                CustomDomainVerificationID = None,
                DefaultHostName = None,
                SiteProperties.OutboundIPAddresses = None,
                SiteProperties.PossibleOutboundIPAddresses = None\<rparr>,
             Site.Identity = ExpandIdentity pkg (WindowsWebAppModel.Identity state),
             Site.Kind = None,
             Site.Location = Some (WindowsWebAppModel.Location state),
             Site.Tags = FromTypedObject pkg (WindowsWebAppModel.Tags state)\<rparr>;
          (siteConfig, currentStack, err) =
            ExpandSiteConfigWindows pkg (WindowsWebAppModel.SiteConfig state)
      in
      if err \<noteq> None then
        raise (Errorf ''expanding Site Config for Windows %s: %+v''
                 [ArgWebAppIdPtr id, ArgError err])
      else
      let site = site\<lparr>SiteProperties :=
                   map_option (\<lambda>props. props\<lparr>SiteProperties.SiteConfig := siteConfig\<rparr>)
                     (SiteProperties site)\<rparr>
      in
      thenDo (deref id) (\<lambda>id_v.
      let rg = WebAppId.ResourceGroup id_v;
          name = SiteName id_v
      in
      thenDo (call3 CreateOrUpdate (WebAppsClient_CreateOrUpdate client) rg name site)
        (\<lambda>(updateFuture, err).
      if err \<noteq> None then
        raise (Errorf ''updating Windows %s: %+v'' [ArgWebAppIdPtr id, ArgError err])
      else
      thenDo (call WaitForCompletion (WaitForCompletionRef updateFuture)) (\<lambda>err.
      if err \<noteq> None then
        raise (Errorf ''wating to update %s: %+v'' [ArgWebAppIdPtr id, ArgError err])
      else
      thenDo
        (ifThen (currentStack \<noteq> None \<and> currentStack \<noteq> Some [])
           (let siteMetadata =
                  \<lparr>StringDictionary.Properties = [(''CURRENT_STACK'', currentStack)]\<rparr>
            in
            thenDo (call3 UpdateMetadata (WebAppsClient_UpdateMetadata client) rg name
                      siteMetadata) (\<lambda>(_, err).
            if err \<noteq> None then
              raise (Errorf ''setting Site Metadata for Current Stack on Windows %s: %+v''
                       [ArgWebAppIdPtr id, ArgError err])
            else ret ()))) (\<lambda>_.
      thenDo
        (ifThen (ResourceData_HasChange metadata ''app_settings'')
           (let appSettingsUpdate =
                  ExpandAppSettings pkg (WindowsWebAppModel.AppSettings state)
            in
            thenDo (deref appSettingsUpdate) (\<lambda>appSettingsUpdate_v.
            thenDo (call3 UpdateApplicationSettings
                      (WebAppsClient_UpdateApplicationSettings client) rg name
                      appSettingsUpdate_v) (\<lambda>(_, err).
            if err \<noteq> None then
              raise (Errorf ''updating App Settings for Windows %s: %+v''
                       [ArgWebAppIdPtr id, ArgError err])
            else ret ())))) (\<lambda>_.
      thenDo
        (ifThen (ResourceData_HasChange metadata ''connection_string'')
           (let connectionStringUpdate =
                  ExpandConnectionStrings pkg (WindowsWebAppModel.ConnectionStrings state)
            in
            thenDo (deref connectionStringUpdate) (\<lambda>connectionStringUpdate_v.
            thenDo (call3 UpdateConnectionStrings
                      (WebAppsClient_UpdateConnectionStrings client) rg name
                      connectionStringUpdate_v) (\<lambda>(_, err).
            if err \<noteq> None then
              raise (Errorf ''updating Connection Strings for Windows %s: %+v''
                       [ArgWebAppIdPtr id, ArgError err])
            else ret ())))) (\<lambda>_.
      thenDo
        (ifThen (ResourceData_HasChange metadata ''auth_settings'')
           (let authUpdate = ExpandAuthSettings pkg (WindowsWebAppModel.AuthSettings state)
            in
            thenDo (deref authUpdate) (\<lambda>authUpdate_v.
            thenDo (call3 UpdateAuthSettings (WebAppsClient_UpdateAuthSettings client) rg name
                      authUpdate_v) (\<lambda>(_, err).
            if err \<noteq> None then
              raise (Errorf ''updating Auth Settings for Windows %s: %+v''
                       [ArgWebAppIdPtr id, ArgError err])
            else ret ())))) (\<lambda>_.
      thenDo
        (ifThen (ResourceData_HasChange metadata ''backup'')
           (let backupUpdate = ExpandBackupConfig pkg (WindowsWebAppModel.Backup state)
            in
            thenDo (deref backupUpdate) (\<lambda>backupUpdate_v.
            if BackupRequestProperties backupUpdate_v = None then
              thenDo (call2 DeleteBackupConfiguration
                        (WebAppsClient_DeleteBackupConfiguration client) rg name) (\<lambda>(_, err).
              if err \<noteq> None then
                raise (Errorf ''removing Backup Settings for Windows %s: %+v''
                         [ArgWebAppIdPtr id, ArgError err])
              else ret ())
            else
              thenDo (call3 UpdateBackupConfiguration
                        (WebAppsClient_UpdateBackupConfiguration client) rg name
                        backupUpdate_v) (\<lambda>(_, err).
              if err \<noteq> None then
                raise (Errorf ''updating Backup Settings for Windows %s: %+v''
                         [ArgWebAppIdPtr id, ArgError err])
              else ret ())))) (\<lambda>_.
      thenDo
        (ifThen (ResourceData_HasChange metadata ''logs'')
           (let logsUpdate = ExpandLogsConfig pkg (WindowsWebAppModel.LogsConfig state)
            in
            thenDo (deref logsUpdate) (\<lambda>logsUpdate_v.
            thenDo (call3 UpdateDiagnosticLogsConfig
                      (WebAppsClient_UpdateDiagnosticLogsConfig client) rg name
                      logsUpdate_v) (\<lambda>(_, err).
            if err \<noteq> None then
              raise (Errorf ''updating Logs Config for Windows %s: %+v''
                       [ArgWebAppIdPtr id, ArgError err])
            else ret ())))) (\<lambda>_.
      thenDo
        (ifThen (ResourceData_HasChange metadata ''storage_account'')
           (let storageAccountUpdate =
                  ExpandStorageConfig pkg (WindowsWebAppModel.StorageAccounts state)
            in
            thenDo (deref storageAccountUpdate) (\<lambda>storageAccountUpdate_v.
            thenDo (call3 UpdateAzureStorageAccounts
                      (WebAppsClient_UpdateAzureStorageAccounts client) rg name
                      storageAccountUpdate_v) (\<lambda>(_, err).
            if err \<noteq> None then
              raise (Errorf ''updating Storage Accounts for Windows %s: %+v''
                       [ArgWebAppIdPtr id, ArgError err])
            else ret ())))) (\<lambda>_.
      ret ())))))))))))"

section \<open>The Linux web app data source\<close>

definition LinuxWebAppDataSource_Read ::
  "Packages \<Rightarrow> LinuxWebAppModel ResourceMetaData \<Rightarrow> (LinuxWebAppModel, unit) action" where
  "LinuxWebAppDataSource_Read pkg metadata =
     (let client = Client metadata;
          subscriptionId = Account_SubscriptionId client;
          (webApp, err) = Decode metadata
      in
      if err \<noteq> None then return_err err
      else
      let id = NewWebAppID subscriptionId (LinuxWebAppModel.ResourceGroup webApp)
                 (LinuxWebAppModel.Name webApp);
          rg = WebAppId.ResourceGroup id;
          site = SiteName id
      in
      thenDo (call2 Get (WebAppsClient_Get client) rg site) (\<lambda>(existing, err).
      if err \<noteq> None then
        (if ResponseWasNotFound pkg (Site.Response existing) then
           raise (Errorf ''Linux Web App with %s not found'' [ArgWebAppId id])
         else raise (Errorf ''retreiving Linux %s: %+v'' [ArgWebAppId id, ArgError err]))
      else
      thenDo (call2 GetConfiguration (WebAppsClient_GetConfiguration client) rg site)
        (\<lambda>(webAppSiteConfig, err).
      if err \<noteq> None then
        raise (Errorf ''reading Site Config for Linux %s: %+v'' [ArgWebAppId id, ArgError err])
      else
      thenDo (call2 GetAuthSettings (WebAppsClient_GetAuthSettings client) rg site)
        (\<lambda>(auth, err).
      if err \<noteq> None then
        raise (Errorf ''reading Auth Settings for Linux %s: %+v'' [ArgWebAppId id, ArgError err])
      else
      thenDo (call2 GetBackupConfiguration (WebAppsClient_GetBackupConfiguration client) rg site)
        (\<lambda>(backup, err).
      if err \<noteq> None \<and> \<not> ResponseWasNotFound pkg (BackupRequest.Response backup) then
        raise (Errorf ''reading Backup Settings for Linux %s: %+v''
                 [ArgWebAppId id, ArgError err])
      else
      thenDo (call2 GetDiagnosticLogsConfiguration
                (WebAppsClient_GetDiagnosticLogsConfiguration client) rg site)
        (\<lambda>(logsConfig, err).
      if err \<noteq> None then
        raise (Errorf ''reading Diagnostic Logs information for Linux %s: %+v''
                 [ArgWebAppId id, ArgError err])
      else
      thenDo (call2 ListApplicationSettings (WebAppsClient_ListApplicationSettings client)
                rg site) (\<lambda>(appSettings, err).
      if err \<noteq> None then
        raise (Errorf ''reading App Settings for Linux %s: %+v'' [ArgWebAppId id, ArgError err])
      else
      thenDo (call2 ListAzureStorageAccounts (WebAppsClient_ListAzureStorageAccounts client)
                rg site) (\<lambda>(storageAccounts, err).
      if err \<noteq> None then
        raise (Errorf ''reading Storage Account information for Linux %s: %+v''
                 [ArgWebAppId id, ArgError err])
      else
      thenDo (call2 ListConnectionStrings (WebAppsClient_ListConnectionStrings client)
                rg site) (\<lambda>(connectionStrings, err).
      if err \<noteq> None then
        raise (Errorf ''reading Connection String information for Linux %s: %+v''
                 [ArgWebAppId id, ArgError err])
      else
      thenDo (call2 ListPublishingCredentials (WebAppsClient_ListPublishingCredentials client)
                rg site) (\<lambda>(siteCredentialsFuture, err).
      if err \<noteq> None then
        raise (Errorf ''listing Site Publishing Credential information for Linux %s: %+v''
                 [ArgWebAppId id, ArgError err])
      else
      thenDo (call WaitForCompletion (WaitForCompletionRef siteCredentialsFuture)) (\<lambda>err.
      if err \<noteq> None then
        raise (Errorf ''waiting for Site Publishing Credential information for Linux %s: %+v''
                 [ArgWebAppId id, ArgError err])
      else
      thenDo (call FutureResult (Result siteCredentialsFuture)) (\<lambda>(siteCredentials, err).
      if err \<noteq> None then
        raise (Errorf ''reading Site Publishing Credential information for Linux %s: %+v''
                 [ArgWebAppId id, ArgError err])
      else
      let webApp = webApp
            \<lparr>LinuxWebAppModel.AppSettings := FlattenAppSettings pkg appSettings,
             LinuxWebAppModel.Kind := NormalizeNilableString pkg (Site.Kind existing),
             LinuxWebAppModel.Location := NormalizeNilable pkg (Site.Location existing),
             LinuxWebAppModel.Tags := ToTypedObject pkg (Site.Tags existing)\<rparr>
      in
      thenDo
        (case SiteProperties existing of
           None \<Rightarrow> ret webApp
         | Some props \<Rightarrow>
             thenDo (deref (SiteProperties.ClientAffinityEnabled props)) (\<lambda>clientAffinityEnabled.
             let webApp = webApp\<lparr>LinuxWebAppModel.ClientAffinityEnabled := clientAffinityEnabled\<rparr>
             in
             thenDo (deref (SiteProperties.ClientCertEnabled props)) (\<lambda>clientCertEnabled.
             let webApp = webApp
                   \<lparr>LinuxWebAppModel.ClientCertEnabled := clientCertEnabled,
                    LinuxWebAppModel.ClientCertMode := SiteProperties.ClientCertMode props,
                    LinuxWebAppModel.CustomDomainVerificationId :=
                      NormalizeNilableString pkg (CustomDomainVerificationID props),
                    LinuxWebAppModel.DefaultHostname :=
                      NormalizeNilableString pkg (DefaultHostName props)\<rparr>
             in
             thenDo (deref (SiteProperties.Enabled props)) (\<lambda>enabled.
             let webApp = webApp\<lparr>LinuxWebAppModel.Enabled := enabled\<rparr>
             in
             thenDo (deref (HTTPSOnly props)) (\<lambda>httpsOnly.
             let webApp = webApp
                   \<lparr>LinuxWebAppModel.HttpsOnly := httpsOnly,
                    LinuxWebAppModel.ServicePlanId :=
                      NormalizeNilableString pkg (ServerFarmID props),
                    LinuxWebAppModel.OutboundIPAddresses :=
                      NormalizeNilableString pkg (SiteProperties.OutboundIPAddresses props)\<rparr>;
                 webApp = webApp
                   \<lparr>LinuxWebAppModel.OutboundIPAddressList :=
                      strings_Split (LinuxWebAppModel.OutboundIPAddresses webApp) (CHR '',''),
                    LinuxWebAppModel.PossibleOutboundIPAddresses :=
                      NormalizeNilableString pkg
                        (SiteProperties.PossibleOutboundIPAddresses props)\<rparr>;
                 webApp = webApp
                   \<lparr>LinuxWebAppModel.PossibleOutboundIPAddressList :=
                      strings_Split (LinuxWebAppModel.PossibleOutboundIPAddresses webApp)
                        (CHR '','')\<rparr>
             in
             ret webApp))))) (\<lambda>webApp.
      let webApp = webApp
            \<lparr>LinuxWebAppModel.AuthSettings := FlattenAuthSettings pkg auth,
             LinuxWebAppModel.Backup := FlattenBackupConfig pkg backup,
             LinuxWebAppModel.Identity := FlattenIdentity pkg (Site.Identity existing),
             LinuxWebAppModel.LogsConfig := FlattenLogsConfig pkg logsConfig,
             LinuxWebAppModel.SiteConfig :=
               FlattenSiteConfigLinux pkg (SiteConfigResource.SiteConfig webAppSiteConfig),
             LinuxWebAppModel.StorageAccounts := FlattenStorageAccounts pkg storageAccounts,
             LinuxWebAppModel.ConnectionStrings :=
               FlattenConnectionStrings pkg connectionStrings,
             LinuxWebAppModel.SiteCredentials := FlattenSiteCredentials pkg siteCredentials\<rparr>
      in
      thenDo (call (SetID id) ()) (\<lambda>_.
      thenDo (call (Encode webApp) (Encode_reply metadata webApp)) return_err))))))))))))))"

section \<open>A concrete setting\<close>

text \<open>
  One web app \<open>app1\<close> in resource group \<open>rg1\<close>, on the service plan \<open>plan1\<close>, with
  collaborators that behave as the SDK and the helper packages usually do. The
  theorems below are instantiated here.
\<close>

definition example_id :: WebAppId where
  "example_id =
     \<lparr>WebAppId.SubscriptionId = ''sub1'', WebAppId.ResourceGroup = ''rg1'', SiteName = ''app1''\<rparr>"

definition example_plan_id :: ServicePlanId where
  "example_plan_id =
     \<lparr>ServicePlanId.SubscriptionId = ''sub1'', ServicePlanId.ResourceGroup = ''rg1'',
      ServerfarmName = ''plan1''\<rparr>"

definition example_ase_id :: AppServiceEnvironmentId where
  "example_ase_id =
     \<lparr>AppServiceEnvironmentId.SubscriptionId = ''sub1'',
      AppServiceEnvironmentId.ResourceGroup = ''rg1'',
      HostingEnvironmentName = ''ase1''\<rparr>"

definition first_block :: "block list \<Rightarrow> block option" where
  "first_block bs = (case bs of [] \<Rightarrow> None | b # _ \<Rightarrow> Some b)"

definition block_list :: "block option \<Rightarrow> block list" where
  "block_list p = (case p of None \<Rightarrow> [] | Some b \<Rightarrow> [b])"

definition example_pkg :: Packages where
  "example_pkg =
     \<lparr>WebAppID = (\<lambda>s. if s = ''/sites/app1'' then (Some example_id, None)
                       else (None, Some (ApiError ''parsing the web app ID''))),
      ServicePlanID = (\<lambda>s. if s = ''/serverfarms/plan1'' then (Some example_plan_id, None)
                            else (None, Some (ApiError ''parsing the service plan ID''))),
      AppServiceEnvironmentID =
        (\<lambda>s. if s = ''/hostingEnvironments/ase1'' then (Some example_ase_id, None)
             else (None, Some (ApiError ''parsing the environment ID''))),
      ResponseWasNotFound = (\<lambda>r. r = Some 404),
      NormalizeNilableString = (\<lambda>p. case p of None \<Rightarrow> [] | Some v \<Rightarrow> v),
      NormalizeNilable = (\<lambda>p. case p of None \<Rightarrow> [] | Some v \<Rightarrow> v),
      FromTypedObject = map (\<lambda>(k, v). (k, Some v)),
      ToTypedObject = map (\<lambda>(k, p). (k, case p of None \<Rightarrow> [] | Some v \<Rightarrow> v)),
      ExpandSiteConfigWindows = (\<lambda>bs. (first_block bs, None, None)),
      ExpandIdentity = first_block,
      ExpandAppSettings =
        (\<lambda>kvs. Some \<lparr>StringDictionary.Properties = map (\<lambda>(k, v). (k, Some v)) kvs\<rparr>),
      ExpandAuthSettings = (\<lambda>bs. Some \<lparr>SiteAuthSettingsProperties = first_block bs\<rparr>),
      ExpandLogsConfig = (\<lambda>bs. Some \<lparr>SiteLogsConfigProperties = first_block bs\<rparr>),
      ExpandBackupConfig =
        (\<lambda>bs. Some \<lparr>BackupRequest.Response = None, BackupRequestProperties = first_block bs\<rparr>),
      ExpandStorageConfig =
        (\<lambda>bs. Some \<lparr>AzureStoragePropertyDictionaryResource.Properties = first_block bs\<rparr>),
      ExpandConnectionStrings =
        (\<lambda>bs. Some \<lparr>ConnectionStringDictionary.Properties = first_block bs\<rparr>),
      FlattenAppSettings =
        (\<lambda>d. map (\<lambda>(k, p). (k, case p of None \<Rightarrow> [] | Some v \<Rightarrow> v))
               (StringDictionary.Properties d)),
      FlattenAuthSettings = (\<lambda>a. block_list (SiteAuthSettingsProperties a)),
      FlattenBackupConfig = (\<lambda>b. block_list (BackupRequestProperties b)),
      FlattenIdentity = block_list,
      FlattenLogsConfig = (\<lambda>l. block_list (SiteLogsConfigProperties l)),
      FlattenSiteConfigWindows = (\<lambda>p currentStack. block_list p),
      FlattenSiteConfigLinux = block_list,
      FlattenStorageAccounts =
        (\<lambda>d. block_list (AzureStoragePropertyDictionaryResource.Properties d)),
      FlattenConnectionStrings = (\<lambda>d. block_list (ConnectionStringDictionary.Properties d)),
      FlattenSiteCredentials = (\<lambda>u. [u])\<rparr>"

definition example_props :: SiteProperties where
  "example_props =
     \<lparr>ServerFarmID = Some ''/serverfarms/plan1'',
      SiteProperties.Enabled = Some True,
      HTTPSOnly = Some True,
      SiteProperties.SiteConfig = None,
      SiteProperties.ClientAffinityEnabled = Some False,
      SiteProperties.ClientCertEnabled = Some False,
      SiteProperties.ClientCertMode = ''Required'',
      CustomDomainVerificationID = None,
      DefaultHostName = Some ''app1.azurewebsites.net'',
      SiteProperties.OutboundIPAddresses = Some ''10.0.0.1,10.0.0.2'',
      SiteProperties.PossibleOutboundIPAddresses = None\<rparr>"

definition example_site :: Site where
  "example_site =
     \<lparr>Site.Response = Some 200,
      SiteProperties = Some example_props,
      Site.Identity = None,
      Site.Kind = Some ''app'',
      Site.Location = Some ''westeurope'',
      Site.Tags = []\<rparr>"

definition absent_site :: Site where
  "absent_site =
     \<lparr>Site.Response = Some 404,
      SiteProperties = None,
      Site.Identity = None,
      Site.Kind = None,
      Site.Location = None,
      Site.Tags = []\<rparr>"

definition done_future :: "'a \<Rightarrow> 'a Future" where
  "done_future x = \<lparr>WaitForCompletionRef = None, Result = (x, None)\<rparr>"

text \<open>The remote side with \<open>app1\<close> in place and every call answered without error.\<close>

definition example_client :: Client where
  "example_client =
     \<lparr>Account_SubscriptionId = ''sub1'',
      WebAppsClient_Get = (\<lambda>rg name. (example_site, None)),
      ServicePlanClient_Get = (\<lambda>rg name. (\<lparr>HostingEnvironmentProfile = None\<rparr>, None)),
      AppServiceEnvironmentClient_Get =
        (\<lambda>rg name. (\<lparr>AppServiceEnvironment = Some \<lparr>DNSSuffix = Some ''ase1.p.azurewebsites.net''\<rparr>\<rparr>,
                     None)),
      WebAppsClient_CheckNameAvailability =
        (\<lambda>req. (\<lparr>NameAvailable = Some True, Message = None\<rparr>, None)),
      WebAppsClient_CreateOrUpdate = (\<lambda>rg name envelope. (done_future envelope, None)),
      WebAppsClient_UpdateMetadata = (\<lambda>rg name d. (d, None)),
      WebAppsClient_UpdateApplicationSettings = (\<lambda>rg name d. (d, None)),
      WebAppsClient_UpdateAuthSettings = (\<lambda>rg name a. (a, None)),
      WebAppsClient_UpdateDiagnosticLogsConfig = (\<lambda>rg name l. (l, None)),
      WebAppsClient_UpdateBackupConfiguration = (\<lambda>rg name b. (b, None)),
      WebAppsClient_DeleteBackupConfiguration = (\<lambda>rg name. (Some 200, None)),
      WebAppsClient_UpdateAzureStorageAccounts = (\<lambda>rg name d. (d, None)),
      WebAppsClient_UpdateConnectionStrings = (\<lambda>rg name d. (d, None)),
      WebAppsClient_Delete = (\<lambda>rg name deleteMetrics deleteEmptyServerFarm. (Some 200, None)),
      WebAppsClient_GetConfiguration = (\<lambda>rg name. (\<lparr>SiteConfigResource.SiteConfig = None\<rparr>, None)),
      WebAppsClient_GetAuthSettings = (\<lambda>rg name. (\<lparr>SiteAuthSettingsProperties = None\<rparr>, None)),
      WebAppsClient_GetBackupConfiguration =
        (\<lambda>rg name. (\<lparr>BackupRequest.Response = Some 404, BackupRequestProperties = None\<rparr>,
                     Some (ApiError ''no backup configuration''))),
      WebAppsClient_GetDiagnosticLogsConfiguration =
        (\<lambda>rg name. (\<lparr>SiteLogsConfigProperties = None\<rparr>, None)),
      WebAppsClient_ListApplicationSettings =
        (\<lambda>rg name. (\<lparr>StringDictionary.Properties = [(''k'', Some ''v'')]\<rparr>, None)),
      WebAppsClient_ListAzureStorageAccounts =
        (\<lambda>rg name. (\<lparr>AzureStoragePropertyDictionaryResource.Properties = None\<rparr>, None)),
      WebAppsClient_ListConnectionStrings =
        (\<lambda>rg name. (\<lparr>ConnectionStringDictionary.Properties = None\<rparr>, None)),
      WebAppsClient_ListPublishingCredentials = (\<lambda>rg name. (done_future ''$app1'', None)),
      WebAppsClient_ListMetadata =
        (\<lambda>rg name. (\<lparr>StringDictionary.Properties = [(''CURRENT_STACK'', Some ''dotnet'')]\<rparr>,
                     None))\<rparr>"

text \<open>The remote side before \<open>app1\<close> exists: the get answers 404.\<close>

definition fresh_client :: Client where
  "fresh_client =
     example_client
       \<lparr>WebAppsClient_Get := (\<lambda>rg name. (absent_site, Some (ApiError ''404 Not Found'')))\<rparr>"

definition example_webApp :: WindowsWebAppModel where
  "example_webApp =
     \<lparr>WindowsWebAppModel.Name = ''app1'',
      WindowsWebAppModel.ResourceGroup = ''rg1'',
      WindowsWebAppModel.Location = ''westeurope'',
      WindowsWebAppModel.ServicePlanId = ''/serverfarms/plan1'',
      WindowsWebAppModel.AppSettings = [(''k'', ''v'')],
      WindowsWebAppModel.AuthSettings = [],
      WindowsWebAppModel.Backup = [],
      WindowsWebAppModel.ClientAffinityEnabled = False,
      WindowsWebAppModel.ClientCertEnabled = False,
      WindowsWebAppModel.ClientCertMode = ''Required'',
      WindowsWebAppModel.Enabled = True,
      WindowsWebAppModel.HttpsOnly = True,
      WindowsWebAppModel.Identity = [],
      WindowsWebAppModel.LogsConfig = [''logs''],
      WindowsWebAppModel.SiteConfig = [],
      WindowsWebAppModel.StorageAccounts = [],
      WindowsWebAppModel.ConnectionStrings = [],
      WindowsWebAppModel.CustomDomainVerificationId = [],
      WindowsWebAppModel.DefaultHostname = [],
      WindowsWebAppModel.Kind = [],
      WindowsWebAppModel.OutboundIPAddresses = [],
      WindowsWebAppModel.OutboundIPAddressList = [],
      WindowsWebAppModel.PossibleOutboundIPAddresses = [],
      WindowsWebAppModel.PossibleOutboundIPAddressList = [],
      WindowsWebAppModel.SiteCredentials = [],
      WindowsWebAppModel.Tags = []\<rparr>"

definition example_linux_webApp :: LinuxWebAppModel where
  "example_linux_webApp =
     \<lparr>LinuxWebAppModel.Name = ''app1'',
      LinuxWebAppModel.ResourceGroup = ''rg1'',
      LinuxWebAppModel.Location = [],
      LinuxWebAppModel.ServicePlanId = [],
      LinuxWebAppModel.AppSettings = [],
      LinuxWebAppModel.AuthSettings = [],
      LinuxWebAppModel.Backup = [],
      LinuxWebAppModel.ClientAffinityEnabled = False,
      LinuxWebAppModel.ClientCertEnabled = False,
      LinuxWebAppModel.ClientCertMode = [],
      LinuxWebAppModel.Enabled = False,
      LinuxWebAppModel.HttpsOnly = False,
      LinuxWebAppModel.Identity = [],
      LinuxWebAppModel.LogsConfig = [],
      LinuxWebAppModel.SiteConfig = [],
      LinuxWebAppModel.StorageAccounts = [],
      LinuxWebAppModel.ConnectionStrings = [],
      LinuxWebAppModel.CustomDomainVerificationId = [],
      LinuxWebAppModel.DefaultHostname = [],
      LinuxWebAppModel.Kind = [],
      LinuxWebAppModel.OutboundIPAddresses = [],
      LinuxWebAppModel.OutboundIPAddressList = [],
      LinuxWebAppModel.PossibleOutboundIPAddresses = [],
      LinuxWebAppModel.PossibleOutboundIPAddressList = [],
      LinuxWebAppModel.SiteCredentials = [],
      LinuxWebAppModel.Tags = []\<rparr>"

text \<open>
  The plugin host's side of one invocation: the decoded model, the stored identifier,
  the fields that changed, and the remote side.
\<close>

definition example_metadata ::
  "'m \<Rightarrow> (string \<Rightarrow> bool) \<Rightarrow> Client \<Rightarrow> 'm ResourceMetaData" where
  "example_metadata model changed client =
     \<lparr>Decode = (model, None),
      ResourceData_Id = ''/sites/app1'',
      ResourceData_HasChange = changed,
      Encode_reply = (\<lambda>state. None),
      Client = client\<rparr>"

section \<open>Properties of what a driver does\<close>

text \<open>The calls that the claims single out.\<close>

definition is_app_settings_update :: "'m event \<Rightarrow> bool" where
  "is_app_settings_update e =
     (case e of UpdateApplicationSettings rg name d \<Rightarrow> True | _ \<Rightarrow> False)"

definition is_logs_update :: "'m event \<Rightarrow> bool" where
  "is_logs_update e = (case e of UpdateDiagnosticLogsConfig rg name d \<Rightarrow> True | _ \<Rightarrow> False)"

definition is_backup_update :: "'m event \<Rightarrow> bool" where
  "is_backup_update e = (case e of UpdateBackupConfiguration rg name d \<Rightarrow> True | _ \<Rightarrow> False)"

definition is_backup_delete :: "'m event \<Rightarrow> bool" where
  "is_backup_delete e = (case e of DeleteBackupConfiguration rg name \<Rightarrow> True | _ \<Rightarrow> False)"

text \<open>
  The calls on the sub-resource groups other than the application settings: logs,
  backup (update or delete), storage accounts, connection strings, auth settings.
\<close>

definition is_other_group_call :: "'m event \<Rightarrow> bool" where
  "is_other_group_call e =
     (case e of
        UpdateConnectionStrings rg name d \<Rightarrow> True
      | UpdateAuthSettings rg name d \<Rightarrow> True
      | UpdateBackupConfiguration rg name d \<Rightarrow> True
      | DeleteBackupConfiguration rg name \<Rightarrow> True
      | UpdateDiagnosticLogsConfig rg name d \<Rightarrow> True
      | UpdateAzureStorageAccounts rg name d \<Rightarrow> True
      | _ \<Rightarrow> False)"

text \<open>
  Four properties of the events of a piece of a driver, used to reason about a driver
  statement by statement: it has no event of a kind; it has an event of a kind
  whenever it ends with a value; its events fall into a first part without \<open>L\<close> and
  a second part without \<open>A\<close>; every \<open>L\<close> has an \<open>A\<close> before it; it has at most one
  event of a kind.
\<close>

definition none :: "('m event \<Rightarrow> bool) \<Rightarrow> ('m, 'a) action \<Rightarrow> bool" where
  "none P m = (\<forall>e\<in>set (fst m). \<not> P e)"

definition must :: "('m event \<Rightarrow> bool) \<Rightarrow> ('m, 'a) action \<Rightarrow> bool" where
  "must P m = (\<forall>x. snd m = Value x \<longrightarrow> (\<exists>e\<in>set (fst m). P e))"

definition split_at ::
  "('m event \<Rightarrow> bool) \<Rightarrow> ('m event \<Rightarrow> bool) \<Rightarrow> ('m, 'a) action \<Rightarrow> bool" where
  "split_at A L m =
     (\<exists>pre post. fst m = pre @ post \<and> (\<forall>e\<in>set pre. \<not> L e) \<and> (\<forall>e\<in>set post. \<not> A e))"

definition guarded ::
  "('m event \<Rightarrow> bool) \<Rightarrow> ('m event \<Rightarrow> bool) \<Rightarrow> ('m, 'a) action \<Rightarrow> bool" where
  "guarded A L m = (\<forall>i<length (fst m). L (fst m ! i) \<longrightarrow> (\<exists>j<i. A (fst m ! j)))"

definition atmost1 :: "('m event \<Rightarrow> bool) \<Rightarrow> ('m, 'a) action \<Rightarrow> bool" where
  "atmost1 P m = (length (filter P (fst m)) \<le> 1)"

text \<open>
  The auxiliary reads of \<open>Read\<close>, in the order the driver issues them, each with the
  format of the error it is wrapped in and the error it answers with. A backup read
  that reports NotFound counts as no failure. The first failure is the first entry
  with an error.
\<close>

definition auxiliary_read_errors ::
  "Packages \<Rightarrow> Client \<Rightarrow> string \<Rightarrow> string \<Rightarrow> (string \<times> error option) list" where
  "auxiliary_read_errors pkg client rg site =
     (let (backup, backupErr) = WebAppsClient_GetBackupConfiguration client rg site;
          (siteCredentialsFuture, listErr) =
            WebAppsClient_ListPublishingCredentials client rg site
      in
      [(''reading Site Config for Windows %s: %+v'',
          snd (WebAppsClient_GetConfiguration client rg site)),
       (''reading Auth Settings for Windows %s: %+v'',
          snd (WebAppsClient_GetAuthSettings client rg site)),
       (''reading Backup Settings for Windows %s: %+v'',
          if ResponseWasNotFound pkg (BackupRequest.Response backup) then None else backupErr),
       (''reading Diagnostic Logs information for Windows %s: %+v'',
          snd (WebAppsClient_GetDiagnosticLogsConfiguration client rg site)),
       (''reading App Settings for Windows %s: %+v'',
          snd (WebAppsClient_ListApplicationSettings client rg site)),
       (''reading Storage Account information for Windows %s: %+v'',
          snd (WebAppsClient_ListAzureStorageAccounts client rg site)),
       (''reading Connection String information for Windows %s: %+v'',
          snd (WebAppsClient_ListConnectionStrings client rg site)),
       (''listing Site Publishing Credential information for Windows %s: %+v'', listErr),
       (''waiting for Site Publishing Credential information for Windows %s: %+v'',
          WaitForCompletionRef siteCredentialsFuture),
       (''reading Site Publishing Credential information for Windows %s: %+v'',
          snd (Result siteCredentialsFuture)),
       (''reading Site Metadata for Windows %s: %+v'',
          snd (WebAppsClient_ListMetadata client rg site))])"

fun first_failure :: "(string \<times> error option) list \<Rightarrow> (string \<times> error) option" where
  "first_failure [] = None"
| "first_failure ((fmt, err) # rest) =
     (case err of None \<Rightarrow> first_failure rest | Some e \<Rightarrow> Some (fmt, e))"

text \<open>
  The reads that the Linux data source shares with the resource (all but the listing
  of the site metadata) go through.
\<close>

definition shared_reads_succeed :: "Packages \<Rightarrow> Client \<Rightarrow> string \<Rightarrow> string \<Rightarrow> bool" where
  "shared_reads_succeed pkg client rg site =
     (first_failure (butlast (auxiliary_read_errors pkg client rg site)) = None)"

text \<open>A site whose four flags come back as \<open>nil\<close> pointers, and a remote side that has it.\<close>

definition nil_flags_props :: SiteProperties where
  "nil_flags_props =
     example_props
       \<lparr>SiteProperties.Enabled := None,
        HTTPSOnly := None,
        SiteProperties.ClientAffinityEnabled := None,
        SiteProperties.ClientCertEnabled := None\<rparr>"

definition nil_flags_client :: Client where
  "nil_flags_client =
     example_client
       \<lparr>WebAppsClient_Get :=
          (\<lambda>rg name. (example_site\<lparr>SiteProperties := Some nil_flags_props\<rparr>, None))\<rparr>"

text \<open>A remote side on which the listing of the connection strings fails.\<close>

definition failing_client :: Client where
  "failing_client =
     example_client
       \<lparr>WebAppsClient_ListConnectionStrings :=
          (\<lambda>rg name. (\<lparr>ConnectionStringDictionary.Properties = None\<rparr>,
                       Some (ApiError ''500 Internal Server Error'')))\<rparr>"

text \<open>
  The errors with which Update ends at a step before the backup step, told by the
  message they are wrapped in: the expansion of the site configuration, the update of
  the site and the wait for it, the current-stack metadata call, and the calls on the
  app settings, the connection strings and the auth settings.
\<close>

definition is_error_before_backup :: "error \<Rightarrow> bool" where
  "is_error_before_backup e =
     (case e of
        Errorf fmt args \<Rightarrow>
          fmt \<in> set [''expanding Site Config for Windows %s: %+v'',
                      ''updating Windows %s: %+v'',
                      ''wating to update %s: %+v'',
                      ''setting Site Metadata for Current Stack on Windows %s: %+v'',
                      ''updating App Settings for Windows %s: %+v'',
                      ''updating Connection Strings for Windows %s: %+v'',
                      ''updating Auth Settings for Windows %s: %+v'']
      | _ \<Rightarrow> False)"

text \<open>
  Two more properties of a piece of a driver. It passes or stops: it gives a value, or
  ends with an error of the kind \<open>E\<close> (and does not panic). It has issued or stopped: an
  event of the kind \<open>A\<close> is among its events, or it has ended with an error of the kind
  \<open>E\<close>.
\<close>

definition passes_or_stops :: "(error \<Rightarrow> bool) \<Rightarrow> ('m, 'a) action \<Rightarrow> bool" where
  "passes_or_stops E m = (case snd m of Value x \<Rightarrow> True | Raise e \<Rightarrow> E e | Panic \<Rightarrow> False)"

definition issued_or_stopped ::
  "('m event \<Rightarrow> bool) \<Rightarrow> (error \<Rightarrow> bool) \<Rightarrow> ('m, 'a) action \<Rightarrow> bool" where
  "issued_or_stopped A E m =
     ((\<exists>e\<in>set (fst m). A e)
      \<or> (case snd m of Value x \<Rightarrow> False | Raise e \<Rightarrow> E e | Panic \<Rightarrow> False))"

text \<open>
  A model with a backup, and the remote side with \<open>app1\<close> in place on which the backup
  update is turned down.
\<close>

definition backup_webApp :: WindowsWebAppModel where
  "backup_webApp =
     example_webApp
       \<lparr>WindowsWebAppModel.Backup := [''backup''],
        WindowsWebAppModel.StorageAccounts := [''storage'']\<rparr>"

definition backup_refused_client :: Client where
  "backup_refused_client =
     example_client
       \<lparr>WebAppsClient_UpdateBackupConfiguration :=
          (\<lambda>rg name b. (b, Some (ApiError ''409 Conflict'')))\<rparr>"











definition ase_bad_id_client :: Client where
  "ase_bad_id_client =
     fresh_client
       \<lparr>ServicePlanClient_Get :=
          (\<lambda>rg name. (\<lparr>HostingEnvironmentProfile = Some \<lparr>ID = Some ''ase1''\<rparr>\<rparr>, None))\<rparr>"

section \<open>Laws of sequencing\<close>

lemma fst_thenDo:
  "fst (thenDo m f) = fst m @ (case snd m of Value x \<Rightarrow> fst (f x) | Raise e \<Rightarrow> [] | Panic \<Rightarrow> [])"
  by (simp add: thenDo_def split: res.splits)

lemma snd_thenDo:
  "snd (thenDo m f) = (case snd m of Value x \<Rightarrow> snd (f x) | Raise e \<Rightarrow> Raise e | Panic \<Rightarrow> Panic)"
  by (simp add: thenDo_def split: res.splits)

lemma snd_deref_Value [simp]: "(snd (deref p) = Value x) = (p = Some x)"
  by (auto simp: deref_def ret_def panic_def split: option.splits)

lemma snd_call_Value [simp]: "(snd (call ev r) = Value x) = (r = x)"
  by (simp add: call_def)

lemma snd_ret_Value [simp]: "(snd (ret y) = Value x) = (y = x)"
  by (simp add: ret_def)

lemma case_option_True [simp]: "(case q of None \<Rightarrow> True | Some x \<Rightarrow> True) = True"
  by (simp split: option.splits)

lemmas call_defs = call2_def call3_def call4_def

subsection \<open>No event of a kind\<close>

lemma none_thenDo [simp]:
  "none P (thenDo m f) = (none P m \<and> (\<forall>x. snd m = Value x \<longrightarrow> none P (f x)))"
  by (cases "snd m") (auto simp: none_def fst_thenDo)

lemma none_ret [simp]: "none P (ret x)"
  by (simp add: none_def ret_def)

lemma none_raise [simp]: "none P (raise e)"
  by (simp add: none_def raise_def)

lemma none_panic [simp]: "none P panic"
  by (simp add: none_def panic_def)

lemma none_return_err [simp]: "none P (return_err err)"
  by (simp add: none_def return_err_def ret_def raise_def split: option.splits)

lemma none_deref [simp]: "none P (deref p)"
  by (simp add: none_def deref_def ret_def panic_def split: option.splits)

lemma none_call [simp]: "none P (call ev r) = (\<not> P ev)"
  by (simp add: none_def call_def)

lemma none_ifThen [simp]: "none P (ifThen c m) = (c \<longrightarrow> none P m)"
  by (simp add: ifThen_def)

lemma none_if [simp]: "none P (if c then a else b) = (if c then none P a else none P b)"
  by simp

lemma none_case_option [simp]:
  "none P (case q of None \<Rightarrow> a | Some x \<Rightarrow> h x) =
     (case q of None \<Rightarrow> none P a | Some x \<Rightarrow> none P (h x))"
  by (simp split: option.splits)

subsection \<open>An event of a kind whenever a value comes back\<close>

lemma must_thenDo_first: "must A m \<Longrightarrow> must A (thenDo m f)"
  by (cases "snd m") (auto simp: must_def fst_thenDo snd_thenDo)

lemma must_thenDo_later: "\<forall>x. snd m = Value x \<longrightarrow> must A (f x) \<Longrightarrow> must A (thenDo m f)"
  by (cases "snd m") (auto simp: must_def fst_thenDo snd_thenDo)

lemma must_raise: "must A (raise e)"
  by (simp add: must_def raise_def)

lemma must_panic: "must A panic"
  by (simp add: must_def panic_def)

lemma must_call: "must A (call ev r) = A ev"
  by (simp add: must_def call_def)

lemma must_return_err: "must A (return_err err) = (err \<noteq> None)"
  by (auto simp: must_def return_err_def ret_def raise_def split: option.splits)

lemma must_ifThen: "must A (ifThen c m) = (c \<and> must A m)"
  by (cases c) (auto simp: must_def ifThen_def ret_def)

lemma must_if: "must A (if c then a else b) = (if c then must A a else must A b)"
  by simp

lemma must_case_option:
  "must A (case q of None \<Rightarrow> a | Some x \<Rightarrow> h x) =
     (case q of None \<Rightarrow> must A a | Some x \<Rightarrow> must A (h x))"
  by (simp split: option.splits)

lemmas must_simps = must_thenDo_first must_thenDo_later must_raise must_panic must_call
  must_return_err must_ifThen must_if must_case_option

subsection \<open>A trace in two parts\<close>

lemma split_at_none: "none A m \<Longrightarrow> split_at A L m"
  unfolding split_at_def none_def by (rule exI[of _ "[]"]) simp

lemma split_at_thenDo: "none A (thenDo m f) \<Longrightarrow> split_at A L (thenDo m f)"
  by (rule split_at_none)

lemma split_at_thenDo_later:
  assumes "none L m" and "\<forall>x. snd m = Value x \<longrightarrow> split_at A L (f x)"
  shows "split_at A L (thenDo m f)"
proof (cases "snd m")
  case (Value x)
  with assms(2) obtain pre post
    where pp: "fst (f x) = pre @ post" "\<forall>e\<in>set pre. \<not> L e" "\<forall>e\<in>set post. \<not> A e"
    unfolding split_at_def by blast
  have "fst (thenDo m f) = (fst m @ pre) @ post"
    using Value pp(1) by (simp add: fst_thenDo)
  moreover have "\<forall>e\<in>set (fst m @ pre). \<not> L e"
    using assms(1) pp(2) by (auto simp: none_def)
  ultimately show ?thesis
    unfolding split_at_def using pp(3) by blast
next
  case (Raise e)
  then have "fst (thenDo m f) = fst m @ []"
    by (simp add: fst_thenDo)
  then show ?thesis
    unfolding split_at_def using assms(1) by (metis none_def empty_iff list.set(1))
next
  case Panic
  then have "fst (thenDo m f) = fst m @ []"
    by (simp add: fst_thenDo)
  then show ?thesis
    unfolding split_at_def using assms(1) by (metis none_def empty_iff list.set(1))
qed

lemma split_at_ret: "split_at A L (ret x)"
  by (simp add: split_at_none)

lemma split_at_raise: "split_at A L (raise e)"
  by (simp add: split_at_none)

lemma split_at_panic: "split_at A L panic"
  by (simp add: split_at_none)

lemma split_at_return_err: "split_at A L (return_err err)"
  by (simp add: split_at_none)

lemma split_at_if:
  "split_at A L (if c then a else b) = (if c then split_at A L a else split_at A L b)"
  by simp

lemma split_at_case_option:
  "split_at A L (case q of None \<Rightarrow> a | Some x \<Rightarrow> h x) =
     (case q of None \<Rightarrow> split_at A L a | Some x \<Rightarrow> split_at A L (h x))"
  by (simp split: option.splits)

lemmas split_at_simps = split_at_thenDo split_at_thenDo_later split_at_ret split_at_raise
  split_at_panic split_at_return_err split_at_if split_at_case_option

lemma split_at_order:
  assumes "split_at A L m"
  shows "\<forall>i j. i < length (fst m) \<and> j < length (fst m) \<and> L (fst m ! i) \<and> A (fst m ! j)
           \<longrightarrow> j < i"
proof (intro allI impI)
  fix i j
  assume h: "i < length (fst m) \<and> j < length (fst m) \<and> L (fst m ! i) \<and> A (fst m ! j)"
  from assms obtain pre post
    where pp: "fst m = pre @ post" "\<forall>e\<in>set pre. \<not> L e" "\<forall>e\<in>set post. \<not> A e"
    unfolding split_at_def by blast
  have i: "length pre \<le> i"
  proof (rule ccontr)
    assume "\<not> length pre \<le> i"
    then have "i < length pre" by simp
    then have "fst m ! i \<in> set pre" using pp(1) by (simp add: nth_append)
    with pp(2) h show False by blast
  qed
  have j: "j < length pre"
  proof (rule ccontr)
    assume "\<not> j < length pre"
    then have "fst m ! j = post ! (j - length pre)" "j - length pre < length post"
      using pp(1) h by (auto simp: nth_append)
    then have "fst m ! j \<in> set post" by simp
    with pp(3) h show False by blast
  qed
  from i j show "j < i" by simp
qed

subsection \<open>An event of one kind before every event of another\<close>

lemma guarded_none: "none L m \<Longrightarrow> guarded A L m"
  unfolding guarded_def none_def by (metis nth_mem)

lemma guarded_thenDo: "none L (thenDo m f) \<Longrightarrow> guarded A L (thenDo m f)"
  by (rule guarded_none)

lemma past_first_part:
  assumes "none L m" and "i < length (fst (thenDo m f))" and "L (fst (thenDo m f) ! i)"
  shows "length (fst m) \<le> i \<and> (\<exists>x. snd m = Value x)"
proof -
  have ge: "length (fst m) \<le> i"
  proof (rule ccontr)
    assume "\<not> length (fst m) \<le> i"
    then have "i < length (fst m)" by simp
    then have "fst (thenDo m f) ! i \<in> set (fst m)" by (simp add: fst_thenDo nth_append)
    with assms(1,3) show False by (simp add: none_def)
  qed
  then have "\<exists>x. snd m = Value x"
    using assms(2) by (cases "snd m") (auto simp: fst_thenDo)
  with ge show ?thesis by simp
qed

lemma guarded_thenDo_must:
  assumes "none L m" and "must A m"
  shows "guarded A L (thenDo m f)"
  unfolding guarded_def
proof (intro allI impI)
  fix i
  assume i: "i < length (fst (thenDo m f))" and l: "L (fst (thenDo m f) ! i)"
  from past_first_part [OF assms(1) i l] obtain x
    where ge: "length (fst m) \<le> i" and x: "snd m = Value x" by blast
  with assms(2) obtain e where "e \<in> set (fst m)" "A e"
    unfolding must_def by blast
  then obtain j where "j < length (fst m)" "A (fst m ! j)"
    by (metis in_set_conv_nth)
  then have "j < i \<and> A (fst (thenDo m f) ! j)"
    using ge by (simp add: fst_thenDo nth_append)
  then show "\<exists>j<i. A (fst (thenDo m f) ! j)" by blast
qed

lemma guarded_thenDo_later:
  assumes "none L m" and "\<forall>x. snd m = Value x \<longrightarrow> guarded A L (f x)"
  shows "guarded A L (thenDo m f)"
  unfolding guarded_def
proof (intro allI impI)
  fix i
  assume i: "i < length (fst (thenDo m f))" and l: "L (fst (thenDo m f) ! i)"
  from past_first_part [OF assms(1) i l] obtain x
    where ge: "length (fst m) \<le> i" and x: "snd m = Value x" by blast
  have t: "fst (thenDo m f) = fst m @ fst (f x)"
    using x by (simp add: fst_thenDo)
  have "i - length (fst m) < length (fst (f x))" "L (fst (f x) ! (i - length (fst m)))"
    using i l ge t by (auto simp: nth_append)
  with assms(2) x obtain j where j: "j < i - length (fst m)" "A (fst (f x) ! j)"
    unfolding guarded_def by blast
  then have "length (fst m) + j < i \<and> A (fst (thenDo m f) ! (length (fst m) + j))"
    using t by (simp add: nth_append)
  then show "\<exists>j<i. A (fst (thenDo m f) ! j)" by blast
qed

lemma guarded_ret: "guarded A L (ret x)"
  by (simp add: guarded_none)

lemma guarded_raise: "guarded A L (raise e)"
  by (simp add: guarded_none)

lemma guarded_panic: "guarded A L panic"
  by (simp add: guarded_none)

lemma guarded_return_err: "guarded A L (return_err err)"
  by (simp add: guarded_none)

lemma guarded_if:
  "guarded A L (if c then a else b) = (if c then guarded A L a else guarded A L b)"
  by simp

lemma guarded_case_option:
  "guarded A L (case q of None \<Rightarrow> a | Some x \<Rightarrow> h x) =
     (case q of None \<Rightarrow> guarded A L a | Some x \<Rightarrow> guarded A L (h x))"
  by (simp split: option.splits)

lemmas guarded_simps = guarded_thenDo guarded_thenDo_must guarded_thenDo_later guarded_ret
  guarded_raise guarded_panic guarded_return_err guarded_if guarded_case_option


subsection \<open>At most one event of a kind\<close>

lemma filter_none: "none A m \<Longrightarrow> filter A (fst m) = []"
  by (simp add: none_def filter_empty_conv)

lemma atmost1_none: "none A m \<Longrightarrow> atmost1 A m"
  by (simp add: atmost1_def filter_none)

lemma atmost1_thenDo: "none A (thenDo m f) \<Longrightarrow> atmost1 A (thenDo m f)"
  by (rule atmost1_none)

lemma atmost1_thenDo_later:
  "none A m \<Longrightarrow> \<forall>x. snd m = Value x \<longrightarrow> atmost1 A (f x) \<Longrightarrow> atmost1 A (thenDo m f)"
  by (cases "snd m") (auto simp: atmost1_def fst_thenDo filter_none)

lemma atmost1_thenDo_first:
  "atmost1 A m \<Longrightarrow> \<forall>x. snd m = Value x \<longrightarrow> none A (f x) \<Longrightarrow> atmost1 A (thenDo m f)"
  by (cases "snd m") (auto simp: atmost1_def fst_thenDo filter_none)

lemma atmost1_call: "atmost1 A (call ev r)"
  by (simp add: atmost1_def call_def)

lemma atmost1_ret: "atmost1 A (ret x)"
  by (simp add: atmost1_none)

lemma atmost1_raise: "atmost1 A (raise e)"
  by (simp add: atmost1_none)

lemma atmost1_panic: "atmost1 A panic"
  by (simp add: atmost1_none)

lemma atmost1_return_err: "atmost1 A (return_err err)"
  by (simp add: atmost1_none)

lemma atmost1_deref: "atmost1 A (deref p)"
  by (simp add: atmost1_none)

lemma atmost1_ifThen: "atmost1 A (ifThen c m) = (c \<longrightarrow> atmost1 A m)"
  by (simp add: ifThen_def atmost1_ret)

lemma atmost1_if:
  "atmost1 A (if c then a else b) = (if c then atmost1 A a else atmost1 A b)"
  by simp

lemma atmost1_case_option:
  "atmost1 A (case q of None \<Rightarrow> a | Some x \<Rightarrow> h x) =
     (case q of None \<Rightarrow> atmost1 A a | Some x \<Rightarrow> atmost1 A (h x))"
  by (simp split: option.splits)

lemmas atmost1_simps = atmost1_thenDo atmost1_thenDo_later atmost1_thenDo_first atmost1_call
  atmost1_ret atmost1_raise atmost1_panic atmost1_return_err atmost1_deref atmost1_ifThen
  atmost1_if atmost1_case_option

lemma the_only_one:
  assumes "atmost1 A m" and "x \<in> set (fst m)" and "A x"
  shows "filter A (fst m) = [x]"
proof -
  have x: "x \<in> set (filter A (fst m))"
    using assms(2,3) by simp
  then obtain y ys where ys: "filter A (fst m) = y # ys"
    by (cases "filter A (fst m)") auto
  with assms(1) have "ys = []"
    by (simp add: atmost1_def)
  with x ys show ?thesis by simp
qed

subsection \<open>Running a driver on given answers\<close>

lemma thenDo_Value: "thenDo (es, Value x) f = (case f x of (es', r) \<Rightarrow> (es @ es', r))"
  by (simp add: thenDo_def split: prod.splits)

lemma thenDo_Raise: "thenDo (es, Raise e) f = (es, Raise e)"
  by (simp add: thenDo_def)

lemma thenDo_Panic: "thenDo (es, Panic) f = (es, Panic)"
  by (simp add: thenDo_def)

lemmas run_simps = thenDo_Value thenDo_Raise thenDo_Panic ret_def raise_def panic_def
  call_def call2_def call3_def call4_def deref_def ifThen_def return_err_def

lemmas example_simps = example_id_def example_plan_id_def example_ase_id_def first_block_def
  block_list_def example_pkg_def example_props_def example_site_def absent_site_def
  done_future_def example_client_def fresh_client_def example_webApp_def
  example_linux_webApp_def example_metadata_def

lemmas step_simps = call_defs Let_def case_prod_beta

section \<open>Delete\<close>

text \<open>
  C8. For every Delete with an identifier that parses, the driver logs one line and
  issues exactly one delete call, with the delete-metrics option \<open>true\<close> and the
  delete-empty-server-farm option \<open>false\<close>; it returns \<open>nil\<close> when that call succeeds
  and the call's error, wrapped, when it fails. Nothing is retried.
\<close>

theorem Delete_one_call:
  assumes "WebAppID pkg (ResourceData_Id metadata) = (Some id_v, None)"
  shows "fst (WindowsWebAppResource_Delete pkg metadata) =
           [Infof ''deleting %s'' [ArgWebAppId id_v],
            Delete (WebAppId.ResourceGroup id_v) (SiteName id_v) (Some True) (Some False)]
       \<and> snd (WindowsWebAppResource_Delete pkg metadata) =
           (case snd (WebAppsClient_Delete (Client metadata) (WebAppId.ResourceGroup id_v)
                        (SiteName id_v) (Some True) (Some False)) of
              None \<Rightarrow> Value ()
            | Some e \<Rightarrow> Raise (Errorf ''deleting Windows %s: %+v''
                                 [ArgWebAppIdPtr (Some id_v), ArgError (Some e)]))"
  using assms
  by (simp add: WindowsWebAppResource_Delete_def run_simps Let_def
      split: prod.splits option.splits)

theorem Delete_one_call_witness:
  "WebAppID example_pkg
     (ResourceData_Id (example_metadata example_webApp (\<lambda>f. False) example_client))
     = (Some example_id, None)
   \<and> WindowsWebAppResource_Delete example_pkg
       (example_metadata example_webApp (\<lambda>f. False) example_client)
     = ([Infof ''deleting %s'' [ArgWebAppId example_id],
         Delete ''rg1'' ''app1'' (Some True) (Some False)], Value ())"
  using Delete_one_call [of example_pkg
      "example_metadata example_webApp (\<lambda>f. False) example_client" example_id]
  by (simp add: example_simps prod_eq_iff)

section \<open>Create: the existence check\<close>

text \<open>
  C7. When the get of the existence check does not report NotFound, Create stops after
  that one call: with the requires-import error when the get found the resource (no
  error), and with the get's error, wrapped, otherwise. So no name-availability check
  and no create call is issued, and Create goes past the existence check only when
  the get reports NotFound.
\<close>

theorem Create_existing_requires_import:
  assumes "Decode metadata = (webApp, None)"
    and "WebAppsClient_Get (Client metadata) (WindowsWebAppModel.ResourceGroup webApp)
           (WindowsWebAppModel.Name webApp) = (existing, err)"
    and "\<not> ResponseWasNotFound pkg (Site.Response existing)"
  shows "fst (WindowsWebAppResource_Create pkg metadata) =
           [Get (WindowsWebAppModel.ResourceGroup webApp) (WindowsWebAppModel.Name webApp)]
       \<and> snd (WindowsWebAppResource_Create pkg metadata) =
           (case err of
              None \<Rightarrow>
                Raise (ResourceRequiresImport ''azurerm_windows_web_app''
                        (NewWebAppID (Account_SubscriptionId (Client metadata))
                           (WindowsWebAppModel.ResourceGroup webApp)
                           (WindowsWebAppModel.Name webApp)))
            | Some e \<Rightarrow>
                Raise (Errorf ''checking for presence of existing Windows %s: %+v''
                        [ArgWebAppId
                           (NewWebAppID (Account_SubscriptionId (Client metadata))
                              (WindowsWebAppModel.ResourceGroup webApp)
                              (WindowsWebAppModel.Name webApp)),
                         ArgError (Some e)]))"
  using assms
  by (simp add: WindowsWebAppResource_Create_def run_simps Let_def NewWebAppID_def
      ResourceType_def split: option.splits)

theorem Create_existing_requires_import_witness:
  "Decode (example_metadata example_webApp (\<lambda>f. False) example_client) = (example_webApp, None)
   \<and> WebAppsClient_Get example_client ''rg1'' ''app1'' = (example_site, None)
   \<and> \<not> ResponseWasNotFound example_pkg (Site.Response example_site)
   \<and> WindowsWebAppResource_Create example_pkg
       (example_metadata example_webApp (\<lambda>f. False) example_client)
     = ([Get ''rg1'' ''app1''],
        Raise (ResourceRequiresImport ''azurerm_windows_web_app'' example_id))"
  using Create_existing_requires_import [of
      "example_metadata example_webApp (\<lambda>f. False) example_client" example_webApp
      example_site None example_pkg]
  by (simp add: example_simps prod_eq_iff NewWebAppID_def)

section \<open>The Linux data source: a web app that is not there\<close>

text \<open>
  C9. When the primary get of the Linux Web App data source fails and reports
  NotFound, the data source returns the error \<open>Linux Web App with <id> not found\<close>
  after that one call and tells the plugin host nothing; the resource's Read, given
  the same answer, marks the resource as gone and returns no error.
\<close>

theorem Linux_Read_not_found:
  assumes "Decode metadata = (webApp, None)"
    and "WebAppsClient_Get (Client metadata) (LinuxWebAppModel.ResourceGroup webApp)
           (LinuxWebAppModel.Name webApp) = (existing, Some e)"
    and "ResponseWasNotFound pkg (Site.Response existing)"
    and "WebAppID pkg (ResourceData_Id metadata') = (Some id_v, None)"
    and "WebAppsClient_Get (Client metadata') (WebAppId.ResourceGroup id_v) (SiteName id_v)
           = (existing, Some e)"
  shows "LinuxWebAppDataSource_Read pkg metadata =
           ([Get (LinuxWebAppModel.ResourceGroup webApp) (LinuxWebAppModel.Name webApp)],
            Raise (Errorf ''Linux Web App with %s not found''
                     [ArgWebAppId (NewWebAppID (Account_SubscriptionId (Client metadata))
                           (LinuxWebAppModel.ResourceGroup webApp)
                           (LinuxWebAppModel.Name webApp))]))
       \<and> WindowsWebAppResource_Read pkg metadata' =
           ([Get (WebAppId.ResourceGroup id_v) (SiteName id_v), MarkAsGone id_v], Value ())"
  using assms
  by (simp add: LinuxWebAppDataSource_Read_def WindowsWebAppResource_Read_def run_simps
      Let_def NewWebAppID_def metadata_MarkAsGone_def)

theorem Linux_Read_not_found_witness:
  "ResponseWasNotFound example_pkg (Site.Response absent_site)
   \<and> LinuxWebAppDataSource_Read example_pkg
       (example_metadata example_linux_webApp (\<lambda>f. False) fresh_client)
     = ([Get ''rg1'' ''app1''],
        Raise (Errorf ''Linux Web App with %s not found'' [ArgWebAppId example_id]))
   \<and> WindowsWebAppResource_Read example_pkg
       (example_metadata example_webApp (\<lambda>f. False) fresh_client)
     = ([Get ''rg1'' ''app1'', MarkAsGone example_id], Value ())"
  using Linux_Read_not_found [of
      "example_metadata example_linux_webApp (\<lambda>f. False) fresh_client" example_linux_webApp
      absent_site "ApiError ''404 Not Found''" example_pkg
      "example_metadata example_webApp (\<lambda>f. False) fresh_client" example_id]
  by (simp add: example_simps prod_eq_iff NewWebAppID_def)

section \<open>Update: which sub-resource calls, and in which order\<close>

lemma Update_split:
  "split_at is_app_settings_update is_logs_update (WindowsWebAppResource_Update pkg metadata)"
  by (simp add: WindowsWebAppResource_Update_def step_simps is_logs_update_def
      is_app_settings_update_def split_at_simps
      cong: if_cong option.case_cong split del: if_split)

lemma Update_guarded:
  "ResourceData_HasChange metadata ''app_settings'' \<Longrightarrow>
   guarded is_app_settings_update is_logs_update (WindowsWebAppResource_Update pkg metadata)"
  by (simp add: WindowsWebAppResource_Update_def step_simps is_logs_update_def
      is_app_settings_update_def guarded_simps must_simps
      cong: if_cong option.case_cong split del: if_split)

lemma Update_atmost1_app:
  "atmost1 is_app_settings_update (WindowsWebAppResource_Update pkg metadata)"
  by (simp add: WindowsWebAppResource_Update_def step_simps is_app_settings_update_def
      atmost1_simps cong: if_cong option.case_cong split del: if_split)

lemma Update_only_app_none:
  assumes "\<not> ResourceData_HasChange metadata ''connection_string''"
    "\<not> ResourceData_HasChange metadata ''auth_settings''"
    "\<not> ResourceData_HasChange metadata ''backup''"
    "\<not> ResourceData_HasChange metadata ''logs''"
    "\<not> ResourceData_HasChange metadata ''storage_account''"
  shows "none is_other_group_call (WindowsWebAppResource_Update pkg metadata)"
  using assms
  by (simp add: WindowsWebAppResource_Update_def step_simps is_other_group_call_def
      cong: if_cong option.case_cong split del: if_split)

lemma Update_only_app_must:
  assumes "ResourceData_HasChange metadata ''app_settings''"
  shows "must is_app_settings_update (WindowsWebAppResource_Update pkg metadata)"
  using assms
  by (simp add: WindowsWebAppResource_Update_def step_simps is_app_settings_update_def
      must_simps cong: if_cong option.case_cong split del: if_split)

lemma Update_example_run:
  "fst (WindowsWebAppResource_Update example_pkg
     (example_metadata example_webApp (\<lambda>f. f = ''app_settings'' \<or> f = ''logs'')
        example_client)) ! 2 =
     UpdateApplicationSettings ''rg1'' ''app1''
       \<lparr>StringDictionary.Properties = [(''k'', Some ''v'')]\<rparr>
   \<and> fst (WindowsWebAppResource_Update example_pkg
     (example_metadata example_webApp (\<lambda>f. f = ''app_settings'' \<or> f = ''logs'')
        example_client)) ! 3 =
     UpdateDiagnosticLogsConfig ''rg1'' ''app1'' \<lparr>SiteLogsConfigProperties = Some ''logs''\<rparr>
   \<and> length (fst (WindowsWebAppResource_Update example_pkg
     (example_metadata example_webApp (\<lambda>f. f = ''app_settings'' \<or> f = ''logs'')
        example_client))) = 4
   \<and> snd (WindowsWebAppResource_Update example_pkg
     (example_metadata example_webApp (\<lambda>f. f = ''app_settings'' \<or> f = ''logs'')
        example_client)) = Value ()"
  by (simp add: WindowsWebAppResource_Update_def run_simps example_simps Let_def)

text \<open>
  C2. In every run of Update, every application-settings update call stands before
  every logs-configuration update call; and when the \<open>app_settings\<close> field changed,
  every logs-configuration update call has an application-settings update call before
  it.
\<close>

theorem Update_app_settings_before_logs:
  "(\<forall>i j. i < length (fst (WindowsWebAppResource_Update pkg metadata))
         \<and> j < length (fst (WindowsWebAppResource_Update pkg metadata))
         \<and> is_logs_update (fst (WindowsWebAppResource_Update pkg metadata) ! i)
         \<and> is_app_settings_update (fst (WindowsWebAppResource_Update pkg metadata) ! j)
       \<longrightarrow> j < i)
   \<and> (ResourceData_HasChange metadata ''app_settings'' \<longrightarrow>
        (\<forall>i < length (fst (WindowsWebAppResource_Update pkg metadata)).
           is_logs_update (fst (WindowsWebAppResource_Update pkg metadata) ! i) \<longrightarrow>
           (\<exists>j<i. is_app_settings_update
                    (fst (WindowsWebAppResource_Update pkg metadata) ! j))))"
  using split_at_order [OF Update_split, of pkg metadata] Update_guarded [of metadata pkg]
  unfolding guarded_def by blast

theorem Update_app_settings_before_logs_witness:
  "is_logs_update (fst (WindowsWebAppResource_Update example_pkg
     (example_metadata example_webApp (\<lambda>f. f = ''app_settings'' \<or> f = ''logs'')
        example_client)) ! 3)
   \<and> is_app_settings_update (fst (WindowsWebAppResource_Update example_pkg
     (example_metadata example_webApp (\<lambda>f. f = ''app_settings'' \<or> f = ''logs'')
        example_client)) ! 2)
   \<and> (2::nat) < 3"
  using Update_app_settings_before_logs [of example_pkg
     "example_metadata example_webApp (\<lambda>f. f = ''app_settings'' \<or> f = ''logs'')
        example_client"]
    Update_example_run
  by (simp add: is_logs_update_def is_app_settings_update_def)

text \<open>
  C3. When only \<open>app_settings\<close> changed, Update issues no call on any other
  sub-resource group (logs, backup update or delete, storage accounts, connection
  strings, auth settings), at most one application-settings update call, and exactly
  one when it returns \<open>nil\<close>.
\<close>

theorem Update_only_app_settings:
  assumes "ResourceData_HasChange metadata ''app_settings''"
    and "\<not> ResourceData_HasChange metadata ''connection_string''"
    and "\<not> ResourceData_HasChange metadata ''auth_settings''"
    and "\<not> ResourceData_HasChange metadata ''backup''"
    and "\<not> ResourceData_HasChange metadata ''logs''"
    and "\<not> ResourceData_HasChange metadata ''storage_account''"
  shows "(\<forall>e\<in>set (fst (WindowsWebAppResource_Update pkg metadata)). \<not> is_other_group_call e)
       \<and> length (filter is_app_settings_update
                   (fst (WindowsWebAppResource_Update pkg metadata))) \<le> 1
       \<and> (snd (WindowsWebAppResource_Update pkg metadata) = Value () \<longrightarrow>
            length (filter is_app_settings_update
                      (fst (WindowsWebAppResource_Update pkg metadata))) = 1)"
proof -
  let ?u = "WindowsWebAppResource_Update pkg metadata"
  have n: "\<forall>e\<in>set (fst ?u). \<not> is_other_group_call e"
    using Update_only_app_none [OF assms(2-6)] by (simp add: none_def)
  have a: "atmost1 is_app_settings_update ?u"
    by (rule Update_atmost1_app)
  have "snd ?u = Value () \<longrightarrow> length (filter is_app_settings_update (fst ?u)) = 1"
  proof
    assume "snd ?u = Value ()"
    with Update_only_app_must [OF assms(1)] obtain e
      where "e \<in> set (fst ?u)" "is_app_settings_update e"
      unfolding must_def by blast
    with the_only_one [OF a] show "length (filter is_app_settings_update (fst ?u)) = 1"
      by simp
  qed
  with n a show ?thesis
    by (simp add: atmost1_def)
qed

theorem Update_only_app_settings_witness:
  "ResourceData_HasChange (example_metadata example_webApp (\<lambda>f. f = ''app_settings'')
      example_client) ''app_settings''
   \<and> snd (WindowsWebAppResource_Update example_pkg
       (example_metadata example_webApp (\<lambda>f. f = ''app_settings'') example_client)) = Value ()
   \<and> filter is_other_group_call (fst (WindowsWebAppResource_Update example_pkg
       (example_metadata example_webApp (\<lambda>f. f = ''app_settings'') example_client))) = []
   \<and> length (filter is_app_settings_update
       (fst (WindowsWebAppResource_Update example_pkg
         (example_metadata example_webApp (\<lambda>f. f = ''app_settings'') example_client)))) = 1"
proof -
  let ?md = "example_metadata example_webApp (\<lambda>f. f = ''app_settings'') example_client"
  have r: "snd (WindowsWebAppResource_Update example_pkg ?md) = Value ()"
    by (simp add: WindowsWebAppResource_Update_def run_simps example_simps Let_def)
  have c: "ResourceData_HasChange ?md ''app_settings''"
    "\<not> ResourceData_HasChange ?md ''connection_string''"
    "\<not> ResourceData_HasChange ?md ''auth_settings''"
    "\<not> ResourceData_HasChange ?md ''backup''"
    "\<not> ResourceData_HasChange ?md ''logs''"
    "\<not> ResourceData_HasChange ?md ''storage_account''"
    by (simp_all add: example_metadata_def)
  from Update_only_app_settings [OF c, of example_pkg] r c(1) show ?thesis
    by (simp add: filter_empty_conv)
qed

subsection \<open>Passing or stopping, and having issued or stopped\<close>

lemma passes_thenDo:
  "passes_or_stops E (thenDo m f) =
     (passes_or_stops E m \<and> (\<forall>x. snd m = Value x \<longrightarrow> passes_or_stops E (f x)))"
  by (cases "snd m") (auto simp: passes_or_stops_def snd_thenDo)

lemma passes_ret: "passes_or_stops E (ret x)"
  by (simp add: passes_or_stops_def ret_def)

lemma passes_raise: "passes_or_stops E (raise e) = E e"
  by (simp add: passes_or_stops_def raise_def)

lemma passes_panic: "passes_or_stops E panic = False"
  by (simp add: passes_or_stops_def panic_def)

lemma passes_deref: "passes_or_stops E (deref p) = (p \<noteq> None)"
  by (cases p) (simp_all add: passes_or_stops_def deref_def ret_def panic_def)

lemma passes_call: "passes_or_stops E (call ev r)"
  by (simp add: passes_or_stops_def call_def)

lemma passes_ifThen: "passes_or_stops E (ifThen c m) = (c \<longrightarrow> passes_or_stops E m)"
  by (cases c) (simp_all add: passes_or_stops_def ifThen_def ret_def)

lemma passes_if:
  "passes_or_stops E (if c then a else b) =
     (if c then passes_or_stops E a else passes_or_stops E b)"
  by simp

lemmas passes_simps = passes_thenDo passes_ret passes_raise passes_panic passes_deref
  passes_call passes_ifThen passes_if

lemma issued_thenDo_first: "issued_or_stopped A E m \<Longrightarrow> issued_or_stopped A E (thenDo m f)"
  by (cases "snd m") (auto simp: issued_or_stopped_def fst_thenDo snd_thenDo)

lemma issued_thenDo_later:
  "passes_or_stops E m \<Longrightarrow> \<forall>x. snd m = Value x \<longrightarrow> issued_or_stopped A E (f x) \<Longrightarrow>
   issued_or_stopped A E (thenDo m f)"
  by (cases "snd m")
    (auto simp: issued_or_stopped_def passes_or_stops_def fst_thenDo snd_thenDo)

lemma issued_call: "issued_or_stopped A E (call ev r) = A ev"
  by (simp add: issued_or_stopped_def call_def)

lemma issued_raise: "issued_or_stopped A E (raise e) = E e"
  by (simp add: issued_or_stopped_def raise_def)

lemma issued_ret: "issued_or_stopped A E (ret x) = False"
  by (simp add: issued_or_stopped_def ret_def)

lemma issued_panic: "issued_or_stopped A E panic = False"
  by (simp add: issued_or_stopped_def panic_def)

lemma issued_deref: "issued_or_stopped A E (deref p) = False"
  by (cases p) (simp_all add: issued_or_stopped_def deref_def ret_def panic_def)

lemma issued_ifThen: "issued_or_stopped A E (ifThen c m) = (c \<and> issued_or_stopped A E m)"
  by (cases c) (simp_all add: issued_or_stopped_def ifThen_def ret_def)

lemma issued_if:
  "issued_or_stopped A E (if c then a else b) =
     (if c then issued_or_stopped A E a else issued_or_stopped A E b)"
  by simp

lemmas issued_simps = issued_thenDo_first issued_thenDo_later issued_call issued_raise
  issued_ret issued_panic issued_deref issued_ifThen issued_if

lemma Update_backup_empty_issued:
  assumes "WebAppID pkg (ResourceData_Id metadata) = (Some id_v, None)"
    and "Decode metadata = (state, None)"
    and "ExpandBackupConfig pkg (WindowsWebAppModel.Backup state) = Some backupUpdate"
    and "BackupRequestProperties backupUpdate = None"
    and "ResourceData_HasChange metadata ''backup''"
    and "ExpandAppSettings pkg (WindowsWebAppModel.AppSettings state) \<noteq> None"
    and "ExpandConnectionStrings pkg (WindowsWebAppModel.ConnectionStrings state) \<noteq> None"
    and "ExpandAuthSettings pkg (WindowsWebAppModel.AuthSettings state) \<noteq> None"
  shows "issued_or_stopped
           (\<lambda>e. e = DeleteBackupConfiguration (WebAppId.ResourceGroup id_v) (SiteName id_v))
           is_error_before_backup (WindowsWebAppResource_Update pkg metadata)"
  using assms
  by (simp add: WindowsWebAppResource_Update_def step_simps issued_simps passes_simps
      is_error_before_backup_def cong: if_cong option.case_cong split del: if_split)

lemma Update_backup_given_issued:
  assumes "WebAppID pkg (ResourceData_Id metadata) = (Some id_v, None)"
    and "Decode metadata = (state, None)"
    and "ExpandBackupConfig pkg (WindowsWebAppModel.Backup state) = Some backupUpdate"
    and "BackupRequestProperties backupUpdate = Some props"
    and "ResourceData_HasChange metadata ''backup''"
    and "ExpandAppSettings pkg (WindowsWebAppModel.AppSettings state) \<noteq> None"
    and "ExpandConnectionStrings pkg (WindowsWebAppModel.ConnectionStrings state) \<noteq> None"
    and "ExpandAuthSettings pkg (WindowsWebAppModel.AuthSettings state) \<noteq> None"
  shows "issued_or_stopped
           (\<lambda>e. e = UpdateBackupConfiguration (WebAppId.ResourceGroup id_v) (SiteName id_v)
                        backupUpdate)
           is_error_before_backup (WindowsWebAppResource_Update pkg metadata)"
  using assms
  by (simp add: WindowsWebAppResource_Update_def step_simps issued_simps passes_simps
      is_error_before_backup_def cong: if_cong option.case_cong split del: if_split)

lemma Update_backup_empty_none:
  assumes "Decode metadata = (state, err)"
    and "ExpandBackupConfig pkg (WindowsWebAppModel.Backup state) = Some backupUpdate"
    and "BackupRequestProperties backupUpdate = None"
  shows "none is_backup_update (WindowsWebAppResource_Update pkg metadata)"
  using assms
  by (simp add: WindowsWebAppResource_Update_def step_simps is_backup_update_def
      cong: if_cong option.case_cong split del: if_split)

lemma Update_backup_given_none:
  assumes "Decode metadata = (state, err)"
    and "ExpandBackupConfig pkg (WindowsWebAppModel.Backup state) = Some backupUpdate"
    and "BackupRequestProperties backupUpdate = Some props"
  shows "none is_backup_delete (WindowsWebAppResource_Update pkg metadata)"
  using assms
  by (simp add: WindowsWebAppResource_Update_def step_simps is_backup_delete_def
      cong: if_cong option.case_cong split del: if_split)

lemma Update_backup_empty_must:
  assumes "WebAppID pkg (ResourceData_Id metadata) = (Some id_v, perr)"
    and "Decode metadata = (state, err)"
    and "ExpandBackupConfig pkg (WindowsWebAppModel.Backup state) = Some backupUpdate"
    and "BackupRequestProperties backupUpdate = None"
    and "ResourceData_HasChange metadata ''backup''"
  shows "must (\<lambda>e. e = DeleteBackupConfiguration (WebAppId.ResourceGroup id_v) (SiteName id_v))
           (WindowsWebAppResource_Update pkg metadata)"
  using assms
  by (simp add: WindowsWebAppResource_Update_def step_simps must_simps
      cong: if_cong option.case_cong split del: if_split)

lemma Update_backup_given_must:
  assumes "WebAppID pkg (ResourceData_Id metadata) = (Some id_v, perr)"
    and "Decode metadata = (state, err)"
    and "ExpandBackupConfig pkg (WindowsWebAppModel.Backup state) = Some backupUpdate"
    and "BackupRequestProperties backupUpdate = Some props"
    and "ResourceData_HasChange metadata ''backup''"
  shows "must (\<lambda>e. e = UpdateBackupConfiguration (WebAppId.ResourceGroup id_v) (SiteName id_v)
                        backupUpdate)
           (WindowsWebAppResource_Update pkg metadata)"
  using assms
  by (simp add: WindowsWebAppResource_Update_def step_simps must_simps
      cong: if_cong option.case_cong split del: if_split)

lemma Update_atmost1_backup:
  "atmost1 (\<lambda>e. is_backup_delete e \<or> is_backup_update e)
     (WindowsWebAppResource_Update pkg metadata)"
  by (simp add: WindowsWebAppResource_Update_def step_simps is_backup_delete_def
      is_backup_update_def atmost1_simps cong: if_cong option.case_cong split del: if_split)

text \<open>
  C4. When the \<open>backup\<close> field changed: if the expanded backup configuration has no
  properties, no run of Update issues an update-backup call, a run that returns \<open>nil\<close>
  has issued the delete-backup call, once, as its only backup call, and every run
  issues the delete-backup call unless it has ended at an earlier step with that
  step's error; if the configuration has properties, no run issues a delete-backup
  call, a run that returns \<open>nil\<close> has issued the update-backup call with that
  configuration, once, as its only backup call, and every run issues that update-backup
  call unless it has ended at an earlier step with that step's error. For the last
  part the expand helpers of the three earlier groups are taken to give a
  representation, as the driver dereferences what they give unguarded.
\<close>

theorem Update_backup_delete_or_update:
  assumes "WebAppID pkg (ResourceData_Id metadata) = (Some id_v, None)"
    and "Decode metadata = (state, None)"
    and "ExpandBackupConfig pkg (WindowsWebAppModel.Backup state) = Some backupUpdate"
    and "ResourceData_HasChange metadata ''backup''"
  shows "(BackupRequestProperties backupUpdate = None \<longrightarrow>
            (\<forall>e\<in>set (fst (WindowsWebAppResource_Update pkg metadata)). \<not> is_backup_update e)
          \<and> (snd (WindowsWebAppResource_Update pkg metadata) = Value () \<longrightarrow>
               filter (\<lambda>e. is_backup_delete e \<or> is_backup_update e)
                 (fst (WindowsWebAppResource_Update pkg metadata)) =
               [DeleteBackupConfiguration (WebAppId.ResourceGroup id_v) (SiteName id_v)])
          \<and> (ExpandAppSettings pkg (WindowsWebAppModel.AppSettings state) \<noteq> None
              \<and> ExpandConnectionStrings pkg (WindowsWebAppModel.ConnectionStrings state) \<noteq> None
              \<and> ExpandAuthSettings pkg (WindowsWebAppModel.AuthSettings state) \<noteq> None \<longrightarrow>
               DeleteBackupConfiguration (WebAppId.ResourceGroup id_v) (SiteName id_v)
                 \<in> set (fst (WindowsWebAppResource_Update pkg metadata))
               \<or> (\<exists>e. snd (WindowsWebAppResource_Update pkg metadata) = Raise e
                       \<and> is_error_before_backup e)))
       \<and> (BackupRequestProperties backupUpdate \<noteq> None \<longrightarrow>
            (\<forall>e\<in>set (fst (WindowsWebAppResource_Update pkg metadata)). \<not> is_backup_delete e)
          \<and> (snd (WindowsWebAppResource_Update pkg metadata) = Value () \<longrightarrow>
               filter (\<lambda>e. is_backup_delete e \<or> is_backup_update e)
                 (fst (WindowsWebAppResource_Update pkg metadata)) =
               [UpdateBackupConfiguration (WebAppId.ResourceGroup id_v) (SiteName id_v)
                  backupUpdate])
          \<and> (ExpandAppSettings pkg (WindowsWebAppModel.AppSettings state) \<noteq> None
              \<and> ExpandConnectionStrings pkg (WindowsWebAppModel.ConnectionStrings state) \<noteq> None
              \<and> ExpandAuthSettings pkg (WindowsWebAppModel.AuthSettings state) \<noteq> None \<longrightarrow>
               UpdateBackupConfiguration (WebAppId.ResourceGroup id_v) (SiteName id_v)
                 backupUpdate
                 \<in> set (fst (WindowsWebAppResource_Update pkg metadata))
               \<or> (\<exists>e. snd (WindowsWebAppResource_Update pkg metadata) = Raise e
                       \<and> is_error_before_backup e)))"
proof (intro conjI impI)
  let ?u = "WindowsWebAppResource_Update pkg metadata"
  let ?B = "\<lambda>e. is_backup_delete e \<or> is_backup_update e"
  let ?helpers = "ExpandAppSettings pkg (WindowsWebAppModel.AppSettings state) \<noteq> None
      \<and> ExpandConnectionStrings pkg (WindowsWebAppModel.ConnectionStrings state) \<noteq> None
      \<and> ExpandAuthSettings pkg (WindowsWebAppModel.AuthSettings state) \<noteq> None"
  note a = Update_atmost1_backup [of pkg metadata]
  {
    assume e: "BackupRequestProperties backupUpdate = None"
    show "\<forall>e\<in>set (fst ?u). \<not> is_backup_update e"
      using Update_backup_empty_none [OF assms(2,3) e] by (simp add: none_def)
    {
      assume "snd ?u = Value ()"
      with Update_backup_empty_must [OF assms(1,2,3) e assms(4)]
      have "DeleteBackupConfiguration (WebAppId.ResourceGroup id_v) (SiteName id_v)
              \<in> set (fst ?u)"
        unfolding must_def by blast
      from the_only_one [OF a this]
      show "filter ?B (fst ?u) =
              [DeleteBackupConfiguration (WebAppId.ResourceGroup id_v) (SiteName id_v)]"
        by (simp add: is_backup_delete_def)
    }
    assume h: ?helpers
    have "issued_or_stopped
            (\<lambda>e. e = DeleteBackupConfiguration (WebAppId.ResourceGroup id_v) (SiteName id_v))
            is_error_before_backup ?u"
      using h by (intro Update_backup_empty_issued [OF assms(1,2,3) e assms(4)]) simp_all
    then show "DeleteBackupConfiguration (WebAppId.ResourceGroup id_v) (SiteName id_v)
                 \<in> set (fst ?u)
               \<or> (\<exists>e. snd ?u = Raise e \<and> is_error_before_backup e)"
      unfolding issued_or_stopped_def by (auto split: res.splits)
  }
  {
    assume "BackupRequestProperties backupUpdate \<noteq> None"
    then obtain props where p: "BackupRequestProperties backupUpdate = Some props"
      by blast
    show "\<forall>e\<in>set (fst ?u). \<not> is_backup_delete e"
      using Update_backup_given_none [OF assms(2,3) p] by (simp add: none_def)
    {
      assume "snd ?u = Value ()"
      with Update_backup_given_must [OF assms(1,2,3) p assms(4)]
      have "UpdateBackupConfiguration (WebAppId.ResourceGroup id_v) (SiteName id_v)
              backupUpdate \<in> set (fst ?u)"
        unfolding must_def by blast
      from the_only_one [OF a this]
      show "filter ?B (fst ?u) =
              [UpdateBackupConfiguration (WebAppId.ResourceGroup id_v) (SiteName id_v)
                 backupUpdate]"
        by (simp add: is_backup_update_def)
    }
    assume h: ?helpers
    have "issued_or_stopped
            (\<lambda>e. e = UpdateBackupConfiguration (WebAppId.ResourceGroup id_v) (SiteName id_v)
                         backupUpdate)
            is_error_before_backup ?u"
      using h by (intro Update_backup_given_issued [OF assms(1,2,3) p assms(4)]) simp_all
    then show "UpdateBackupConfiguration (WebAppId.ResourceGroup id_v) (SiteName id_v)
                 backupUpdate \<in> set (fst ?u)
               \<or> (\<exists>e. snd ?u = Raise e \<and> is_error_before_backup e)"
      unfolding issued_or_stopped_def by (auto split: res.splits)
  }
qed

theorem Update_backup_delete_or_update_witness:
  "ResourceData_HasChange (example_metadata example_webApp (\<lambda>f. f = ''backup'') example_client)
      ''backup''
   \<and> ExpandBackupConfig example_pkg (WindowsWebAppModel.Backup example_webApp) =
       Some \<lparr>BackupRequest.Response = None, BackupRequestProperties = None\<rparr>
   \<and> snd (WindowsWebAppResource_Update example_pkg
       (example_metadata example_webApp (\<lambda>f. f = ''backup'') example_client)) = Value ()
   \<and> filter (\<lambda>e. is_backup_delete e \<or> is_backup_update e)
       (fst (WindowsWebAppResource_Update example_pkg
         (example_metadata example_webApp (\<lambda>f. f = ''backup'') example_client))) =
       [DeleteBackupConfiguration ''rg1'' ''app1'']
   \<and> ExpandBackupConfig example_pkg (WindowsWebAppModel.Backup backup_webApp) =
       Some \<lparr>BackupRequest.Response = None, BackupRequestProperties = Some ''backup''\<rparr>
   \<and> snd (WindowsWebAppResource_Update example_pkg
       (example_metadata backup_webApp (\<lambda>f. f = ''backup'') backup_refused_client)) =
       Raise (Errorf ''updating Backup Settings for Windows %s: %+v''
                [ArgWebAppIdPtr (Some example_id),
                 ArgError (Some (ApiError ''409 Conflict''))])
   \<and> UpdateBackupConfiguration ''rg1'' ''app1''
       \<lparr>BackupRequest.Response = None, BackupRequestProperties = Some ''backup''\<rparr>
       \<in> set (fst (WindowsWebAppResource_Update example_pkg
            (example_metadata backup_webApp (\<lambda>f. f = ''backup'') backup_refused_client)))
   \<and> filter is_backup_delete
       (fst (WindowsWebAppResource_Update example_pkg
          (example_metadata backup_webApp (\<lambda>f. f = ''backup'') backup_refused_client))) = []"
proof -
  let ?md = "example_metadata example_webApp (\<lambda>f. f = ''backup'') example_client"
  let ?b = "\<lparr>BackupRequest.Response = None, BackupRequestProperties = None\<rparr>"
  let ?md' = "example_metadata backup_webApp (\<lambda>f. f = ''backup'') backup_refused_client"
  let ?b' = "\<lparr>BackupRequest.Response = None, BackupRequestProperties = Some ''backup''\<rparr>"
  have r: "snd (WindowsWebAppResource_Update example_pkg ?md) = Value ()"
    by (simp add: WindowsWebAppResource_Update_def run_simps example_simps Let_def)
  have h: "WebAppID example_pkg (ResourceData_Id ?md) = (Some example_id, None)"
    "Decode ?md = (example_webApp, None)"
    "ExpandBackupConfig example_pkg (WindowsWebAppModel.Backup example_webApp) = Some ?b"
    "ResourceData_HasChange ?md ''backup''"
    by (simp_all add: example_simps)
  have r': "snd (WindowsWebAppResource_Update example_pkg ?md') =
      Raise (Errorf ''updating Backup Settings for Windows %s: %+v''
               [ArgWebAppIdPtr (Some example_id), ArgError (Some (ApiError ''409 Conflict''))])"
    by (simp add: WindowsWebAppResource_Update_def run_simps example_simps Let_def
        backup_webApp_def backup_refused_client_def)
  have h': "WebAppID example_pkg (ResourceData_Id ?md') = (Some example_id, None)"
    "Decode ?md' = (backup_webApp, None)"
    "ExpandBackupConfig example_pkg (WindowsWebAppModel.Backup backup_webApp) = Some ?b'"
    "ResourceData_HasChange ?md' ''backup''"
    by (simp_all add: example_simps backup_webApp_def)
  have g: "ExpandAppSettings example_pkg (WindowsWebAppModel.AppSettings backup_webApp) \<noteq> None"
    "ExpandConnectionStrings example_pkg (WindowsWebAppModel.ConnectionStrings backup_webApp)
       \<noteq> None"
    "ExpandAuthSettings example_pkg (WindowsWebAppModel.AuthSettings backup_webApp) \<noteq> None"
    by (simp_all add: example_pkg_def)
  have n: "\<not> is_error_before_backup
             (Errorf ''updating Backup Settings for Windows %s: %+v''
                [ArgWebAppIdPtr (Some example_id),
                 ArgError (Some (ApiError ''409 Conflict''))])"
    by (simp add: is_error_before_backup_def)
  have i: "WebAppId.ResourceGroup example_id = ''rg1''" "SiteName example_id = ''app1''"
    by (simp_all add: example_id_def)
  from Update_backup_delete_or_update [OF h] Update_backup_delete_or_update [OF h']
    r h(3,4) r' h'(3) g n show ?thesis
    by (simp add: i filter_empty_conv)
qed


subsection \<open>The events and the result of a sequence\<close>

lemma snd_call: "snd (call ev r) = Value r"
  by (simp add: call_def)

lemma fst_call: "fst (call ev r) = [ev]"
  by (simp add: call_def)

lemma snd_ret: "snd (ret x) = Value x"
  by (simp add: ret_def)

lemma fst_ret: "fst (ret x) = []"
  by (simp add: ret_def)

lemma snd_raise: "snd (raise e) = Raise e"
  by (simp add: raise_def)

lemma fst_raise: "fst (raise e) = []"
  by (simp add: raise_def)

lemma snd_panic: "snd panic = Panic"
  by (simp add: panic_def)

lemma fst_panic: "fst panic = []"
  by (simp add: panic_def)

lemma snd_deref: "snd (deref p) = (case p of None \<Rightarrow> Panic | Some x \<Rightarrow> Value x)"
  by (simp add: deref_def ret_def panic_def split: option.splits)

lemma fst_deref: "fst (deref p) = []"
  by (simp add: deref_def ret_def panic_def split: option.splits)

lemma snd_return_err:
  "snd (return_err err) = (case err of None \<Rightarrow> Value () | Some e \<Rightarrow> Raise e)"
  by (simp add: return_err_def ret_def raise_def split: option.splits)

lemma fst_return_err: "fst (return_err err) = []"
  by (simp add: return_err_def ret_def raise_def split: option.splits)

lemma snd_if: "snd (if c then a else b) = (if c then snd a else snd b)"
  by simp

lemma fst_if: "fst (if c then a else b) = (if c then fst a else fst b)"
  by simp

lemmas obs_simps = fst_thenDo snd_thenDo snd_call fst_call snd_ret fst_ret snd_raise fst_raise
  snd_panic fst_panic snd_deref fst_deref snd_return_err fst_return_err snd_if fst_if
  call_defs case_prod_beta Let_def

lemma first_failure_None: "(first_failure xs = None) = (\<forall>x\<in>set xs. snd x = None)"
  by (induction xs rule: first_failure.induct) (auto split: option.splits)

section \<open>Read: what a failed read does\<close>

lemma Read_gone:
  assumes "WebAppID pkg (ResourceData_Id metadata) = (Some id_v, None)"
    and "WebAppsClient_Get (Client metadata) (WebAppId.ResourceGroup id_v) (SiteName id_v)
           = (webApp, Some e)"
  shows "WindowsWebAppResource_Read pkg metadata =
           (if ResponseWasNotFound pkg (Site.Response webApp) then
              ([Get (WebAppId.ResourceGroup id_v) (SiteName id_v), MarkAsGone id_v], Value ())
            else
              ([Get (WebAppId.ResourceGroup id_v) (SiteName id_v)],
               Raise (Errorf ''reading Windows %s: %+v''
                        [ArgWebAppIdPtr (Some id_v), ArgError (Some e)])))"
  using assms
  by (simp add: WindowsWebAppResource_Read_def obs_simps prod_eq_iff
      metadata_MarkAsGone_def)

lemma Read_first_failure:
  assumes "WebAppID pkg (ResourceData_Id metadata) = (Some id_v, None)"
    and "WebAppsClient_Get (Client metadata) (WebAppId.ResourceGroup id_v) (SiteName id_v)
           = (webApp, None)"
    and "SiteProperties webApp = Some props"
    and "first_failure (auxiliary_read_errors pkg (Client metadata)
            (WebAppId.ResourceGroup id_v) (SiteName id_v)) = Some (fmt, e)"
  shows "snd (WindowsWebAppResource_Read pkg metadata) =
           Raise (Errorf fmt [ArgWebAppIdPtr (Some id_v), ArgError (Some e)])"
proof -
  define result where "result = snd (WindowsWebAppResource_Read pkg metadata)"
  have "result = Raise (Errorf fmt [ArgWebAppIdPtr (Some id_v), ArgError (Some e)])"
    using assms(4)
    apply (simp add: auxiliary_read_errors_def case_prod_beta
        split: option.split_asm if_split_asm)
    apply (simp_all add: result_def WindowsWebAppResource_Read_def obs_simps assms(1,2,3))
    done
  then show ?thesis
    by (simp add: result_def)
qed

lemma Read_all_fine:
  assumes "WebAppID pkg (ResourceData_Id metadata) = (Some id_v, None)"
    and "WebAppsClient_Get (Client metadata) (WebAppId.ResourceGroup id_v) (SiteName id_v)
           = (webApp, None)"
    and "SiteProperties webApp = Some props"
    and "first_failure (auxiliary_read_errors pkg (Client metadata)
            (WebAppId.ResourceGroup id_v) (SiteName id_v)) = None"
    and "map_of (StringDictionary.Properties
           (fst (WebAppsClient_ListMetadata (Client metadata)
                   (WebAppId.ResourceGroup id_v) (SiteName id_v)))) ''CURRENT_STACK''
         \<noteq> Some None"
  shows "\<exists>currentStack.
           fst (WindowsWebAppResource_Read pkg metadata) =
            [Get (WebAppId.ResourceGroup id_v) (SiteName id_v),
             GetConfiguration (WebAppId.ResourceGroup id_v) (SiteName id_v),
             GetAuthSettings (WebAppId.ResourceGroup id_v) (SiteName id_v),
             GetBackupConfiguration (WebAppId.ResourceGroup id_v) (SiteName id_v),
             GetDiagnosticLogsConfiguration (WebAppId.ResourceGroup id_v) (SiteName id_v),
             ListApplicationSettings (WebAppId.ResourceGroup id_v) (SiteName id_v),
             ListAzureStorageAccounts (WebAppId.ResourceGroup id_v) (SiteName id_v),
             ListConnectionStrings (WebAppId.ResourceGroup id_v) (SiteName id_v),
             ListPublishingCredentials (WebAppId.ResourceGroup id_v) (SiteName id_v),
             WaitForCompletion, FutureResult,
             ListMetadata (WebAppId.ResourceGroup id_v) (SiteName id_v),
             Encode (Read_state_rest pkg
               (fst (WebAppsClient_GetConfiguration (Client metadata)
                       (WebAppId.ResourceGroup id_v) (SiteName id_v)))
               currentStack
               (fst (WebAppsClient_ListAzureStorageAccounts (Client metadata)
                       (WebAppId.ResourceGroup id_v) (SiteName id_v)))
               (fst (WebAppsClient_ListConnectionStrings (Client metadata)
                       (WebAppId.ResourceGroup id_v) (SiteName id_v)))
               (fst (Result (fst (WebAppsClient_ListPublishingCredentials (Client metadata)
                       (WebAppId.ResourceGroup id_v) (SiteName id_v)))))
               (Read_state pkg id_v webApp props
                 (fst (WebAppsClient_ListApplicationSettings (Client metadata)
                       (WebAppId.ResourceGroup id_v) (SiteName id_v)))
                 (fst (WebAppsClient_GetAuthSettings (Client metadata)
                       (WebAppId.ResourceGroup id_v) (SiteName id_v)))
                 (fst (WebAppsClient_GetBackupConfiguration (Client metadata)
                       (WebAppId.ResourceGroup id_v) (SiteName id_v)))
                 (fst (WebAppsClient_GetDiagnosticLogsConfiguration (Client metadata)
                       (WebAppId.ResourceGroup id_v) (SiteName id_v)))))]
          \<and> snd (WindowsWebAppResource_Read pkg metadata) =
              (case Encode_reply metadata (Read_state_rest pkg
               (fst (WebAppsClient_GetConfiguration (Client metadata)
                       (WebAppId.ResourceGroup id_v) (SiteName id_v)))
               currentStack
               (fst (WebAppsClient_ListAzureStorageAccounts (Client metadata)
                       (WebAppId.ResourceGroup id_v) (SiteName id_v)))
               (fst (WebAppsClient_ListConnectionStrings (Client metadata)
                       (WebAppId.ResourceGroup id_v) (SiteName id_v)))
               (fst (Result (fst (WebAppsClient_ListPublishingCredentials (Client metadata)
                       (WebAppId.ResourceGroup id_v) (SiteName id_v)))))
               (Read_state pkg id_v webApp props
                 (fst (WebAppsClient_ListApplicationSettings (Client metadata)
                       (WebAppId.ResourceGroup id_v) (SiteName id_v)))
                 (fst (WebAppsClient_GetAuthSettings (Client metadata)
                       (WebAppId.ResourceGroup id_v) (SiteName id_v)))
                 (fst (WebAppsClient_GetBackupConfiguration (Client metadata)
                       (WebAppId.ResourceGroup id_v) (SiteName id_v)))
                 (fst (WebAppsClient_GetDiagnosticLogsConfiguration (Client metadata)
                       (WebAppId.ResourceGroup id_v) (SiteName id_v)))))
               of None \<Rightarrow> Value () | Some e \<Rightarrow> Raise e)"
proof -
  let ?c = "Client metadata" and ?rg = "WebAppId.ResourceGroup id_v" and ?s = "SiteName id_v"
  have ok: "snd (WebAppsClient_GetConfiguration ?c ?rg ?s) = None"
    "snd (WebAppsClient_GetAuthSettings ?c ?rg ?s) = None"
    "snd (WebAppsClient_GetBackupConfiguration ?c ?rg ?s) = None
       \<or> ResponseWasNotFound pkg
           (BackupRequest.Response (fst (WebAppsClient_GetBackupConfiguration ?c ?rg ?s)))"
    "snd (WebAppsClient_GetDiagnosticLogsConfiguration ?c ?rg ?s) = None"
    "snd (WebAppsClient_ListApplicationSettings ?c ?rg ?s) = None"
    "snd (WebAppsClient_ListAzureStorageAccounts ?c ?rg ?s) = None"
    "snd (WebAppsClient_ListConnectionStrings ?c ?rg ?s) = None"
    "snd (WebAppsClient_ListPublishingCredentials ?c ?rg ?s) = None"
    "WaitForCompletionRef (fst (WebAppsClient_ListPublishingCredentials ?c ?rg ?s)) = None"
    "snd (Result (fst (WebAppsClient_ListPublishingCredentials ?c ?rg ?s))) = None"
    "snd (WebAppsClient_ListMetadata ?c ?rg ?s) = None"
    using assms(4) unfolding first_failure_None auxiliary_read_errors_def
    by (simp_all add: case_prod_beta split: if_split_asm)
  show ?thesis
  proof (cases "map_of (StringDictionary.Properties (fst (WebAppsClient_ListMetadata ?c ?rg ?s)))
                  ''CURRENT_STACK''")
    case None
    with ok assms(1,2,3) show ?thesis
      by (auto simp add: WindowsWebAppResource_Read_def obs_simps)
  next
    case (Some p)
    with assms(5) obtain v where "p = Some v" by (cases p) auto
    with Some ok assms(1,2,3) show ?thesis
      by (auto simp add: WindowsWebAppResource_Read_def obs_simps)
  qed
qed

text \<open>
  C5. For a Read with an identifier that parses: when the primary get fails and
  reports NotFound, the resource is marked as gone and \<open>nil\<close> is returned; when it
  fails otherwise, its error is returned wrapped; when it succeeds with properties,
  the first auxiliary read that fails (configuration, auth, backup unless it reports
  NotFound, logs, app settings, storage accounts, connection strings, the three steps
  of the site credentials, metadata) makes Read return that read's error wrapped in
  that read's message; and when none fails, a failed backup read that reports NotFound
  among them, Read goes on through all twelve reads to \<open>Encode\<close> and returns what
  \<open>Encode\<close> returns.
\<close>

theorem Read_error_handling:
  assumes "WebAppID pkg (ResourceData_Id metadata) = (Some id_v, None)"
    and "WebAppsClient_Get (Client metadata) (WebAppId.ResourceGroup id_v) (SiteName id_v)
           = (webApp, err)"
  shows "(err \<noteq> None \<and> ResponseWasNotFound pkg (Site.Response webApp) \<longrightarrow>
            WindowsWebAppResource_Read pkg metadata =
              ([Get (WebAppId.ResourceGroup id_v) (SiteName id_v), MarkAsGone id_v], Value ()))
       \<and> (err \<noteq> None \<and> \<not> ResponseWasNotFound pkg (Site.Response webApp) \<longrightarrow>
            WindowsWebAppResource_Read pkg metadata =
              ([Get (WebAppId.ResourceGroup id_v) (SiteName id_v)],
               Raise (Errorf ''reading Windows %s: %+v''
                        [ArgWebAppIdPtr (Some id_v), ArgError err])))
       \<and> (\<forall>fmt e. err = None \<and> SiteProperties webApp \<noteq> None
              \<and> first_failure (auxiliary_read_errors pkg (Client metadata)
                    (WebAppId.ResourceGroup id_v) (SiteName id_v)) = Some (fmt, e) \<longrightarrow>
            snd (WindowsWebAppResource_Read pkg metadata) =
              Raise (Errorf fmt [ArgWebAppIdPtr (Some id_v), ArgError (Some e)]))
       \<and> (err = None \<and> SiteProperties webApp \<noteq> None
            \<and> first_failure (auxiliary_read_errors pkg (Client metadata)
                  (WebAppId.ResourceGroup id_v) (SiteName id_v)) = None
            \<and> map_of (StringDictionary.Properties
                 (fst (WebAppsClient_ListMetadata (Client metadata)
                         (WebAppId.ResourceGroup id_v) (SiteName id_v)))) ''CURRENT_STACK''
               \<noteq> Some None \<longrightarrow>
            (\<exists>state. length (fst (WindowsWebAppResource_Read pkg metadata)) = 13
               \<and> last (fst (WindowsWebAppResource_Read pkg metadata)) = Encode state
               \<and> snd (WindowsWebAppResource_Read pkg metadata) =
                   (case Encode_reply metadata state of
                      None \<Rightarrow> Value () | Some e \<Rightarrow> Raise e)))"
proof (intro conjI impI allI)
  assume "err \<noteq> None \<and> ResponseWasNotFound pkg (Site.Response webApp)"
  then obtain e where "err = Some e" "ResponseWasNotFound pkg (Site.Response webApp)"
    by blast
  with Read_gone [OF assms(1), of webApp e] assms(2)
  show "WindowsWebAppResource_Read pkg metadata =
          ([Get (WebAppId.ResourceGroup id_v) (SiteName id_v), MarkAsGone id_v], Value ())"
    by simp
next
  assume "err \<noteq> None \<and> \<not> ResponseWasNotFound pkg (Site.Response webApp)"
  then obtain e where "err = Some e" "\<not> ResponseWasNotFound pkg (Site.Response webApp)"
    by blast
  with Read_gone [OF assms(1), of webApp e] assms(2)
  show "WindowsWebAppResource_Read pkg metadata =
          ([Get (WebAppId.ResourceGroup id_v) (SiteName id_v)],
           Raise (Errorf ''reading Windows %s: %+v''
                    [ArgWebAppIdPtr (Some id_v), ArgError err]))"
    by simp
next
  fix fmt e
  assume h: "err = None \<and> SiteProperties webApp \<noteq> None
              \<and> first_failure (auxiliary_read_errors pkg (Client metadata)
                    (WebAppId.ResourceGroup id_v) (SiteName id_v)) = Some (fmt, e)"
  then obtain props where "SiteProperties webApp = Some props"
    by blast
  with Read_first_failure [OF assms(1), of webApp props fmt e] assms(2) h
  show "snd (WindowsWebAppResource_Read pkg metadata) =
          Raise (Errorf fmt [ArgWebAppIdPtr (Some id_v), ArgError (Some e)])"
    by simp
next
  assume h: "err = None \<and> SiteProperties webApp \<noteq> None
            \<and> first_failure (auxiliary_read_errors pkg (Client metadata)
                  (WebAppId.ResourceGroup id_v) (SiteName id_v)) = None
            \<and> map_of (StringDictionary.Properties
                 (fst (WebAppsClient_ListMetadata (Client metadata)
                         (WebAppId.ResourceGroup id_v) (SiteName id_v)))) ''CURRENT_STACK''
               \<noteq> Some None"
  then obtain props where p: "SiteProperties webApp = Some props"
    by blast
  from h assms(2) have g: "WebAppsClient_Get (Client metadata) (WebAppId.ResourceGroup id_v)
      (SiteName id_v) = (webApp, None)"
    by simp
  from h have ff: "first_failure (auxiliary_read_errors pkg (Client metadata)
                  (WebAppId.ResourceGroup id_v) (SiteName id_v)) = None"
    and st: "map_of (StringDictionary.Properties
                 (fst (WebAppsClient_ListMetadata (Client metadata)
                         (WebAppId.ResourceGroup id_v) (SiteName id_v)))) ''CURRENT_STACK''
               \<noteq> Some None"
    by simp_all
  from Read_all_fine [OF assms(1) g p ff st] obtain currentStack state
    where "fst (WindowsWebAppResource_Read pkg metadata) =
            [Get (WebAppId.ResourceGroup id_v) (SiteName id_v),
             GetConfiguration (WebAppId.ResourceGroup id_v) (SiteName id_v),
             GetAuthSettings (WebAppId.ResourceGroup id_v) (SiteName id_v),
             GetBackupConfiguration (WebAppId.ResourceGroup id_v) (SiteName id_v),
             GetDiagnosticLogsConfiguration (WebAppId.ResourceGroup id_v) (SiteName id_v),
             ListApplicationSettings (WebAppId.ResourceGroup id_v) (SiteName id_v),
             ListAzureStorageAccounts (WebAppId.ResourceGroup id_v) (SiteName id_v),
             ListConnectionStrings (WebAppId.ResourceGroup id_v) (SiteName id_v),
             ListPublishingCredentials (WebAppId.ResourceGroup id_v) (SiteName id_v),
             WaitForCompletion, FutureResult,
             ListMetadata (WebAppId.ResourceGroup id_v) (SiteName id_v),
             Encode state]"
      and "snd (WindowsWebAppResource_Read pkg metadata) =
             (case Encode_reply metadata state of None \<Rightarrow> Value () | Some e \<Rightarrow> Raise e)"
    by blast
  then show "\<exists>state. length (fst (WindowsWebAppResource_Read pkg metadata)) = 13
               \<and> last (fst (WindowsWebAppResource_Read pkg metadata)) = Encode state
               \<and> snd (WindowsWebAppResource_Read pkg metadata) =
                   (case Encode_reply metadata state of
                      None \<Rightarrow> Value () | Some e \<Rightarrow> Raise e)"
    by simp
qed

lemma failing_client_first_failure:
  "first_failure (auxiliary_read_errors example_pkg failing_client ''rg1'' ''app1'') =
     Some (''reading Connection String information for Windows %s: %+v'',
           ApiError ''500 Internal Server Error'')"
  by (simp add: auxiliary_read_errors_def failing_client_def example_simps)

theorem Read_error_handling_witness:
  "first_failure (auxiliary_read_errors example_pkg failing_client ''rg1'' ''app1'') =
     Some (''reading Connection String information for Windows %s: %+v'',
           ApiError ''500 Internal Server Error'')
   \<and> snd (WindowsWebAppResource_Read example_pkg
           (example_metadata example_webApp (\<lambda>f. False) failing_client)) =
       Raise (Errorf ''reading Connection String information for Windows %s: %+v''
                [ArgWebAppIdPtr (Some example_id),
                 ArgError (Some (ApiError ''500 Internal Server Error''))])"
proof -
  let ?md = "example_metadata example_webApp (\<lambda>f. False) failing_client"
  have h: "WebAppID example_pkg (ResourceData_Id ?md) = (Some example_id, None)"
    "WebAppsClient_Get (Client ?md) (WebAppId.ResourceGroup example_id) (SiteName example_id)
       = (example_site, None)"
    by (simp_all add: example_simps failing_client_def)
  have c: "Client ?md = failing_client" "WebAppId.ResourceGroup example_id = ''rg1''"
    "SiteName example_id = ''app1''" "SiteProperties example_site \<noteq> None"
    by (simp_all add: example_simps)
  from Read_error_handling [OF h] failing_client_first_failure c show ?thesis
    by simp
qed


section \<open>Nil flags in the answer of the primary get\<close>

lemma frame_if_not_nil:
  "(\<And>v s. sel (assign v s) = sel s) \<Longrightarrow> sel (if_not_nil p assign st) = sel st"
  by (simp add: if_not_nil_def split: option.splits)

lemma frame_if_not_empty:
  "(\<And>v s. sel (assign v s) = sel s) \<Longrightarrow> sel (if_not_empty x assign st) = sel st"
  by (simp add: if_not_empty_def)

lemma if_not_nil_None: "if_not_nil None assign st = st"
  by (simp add: if_not_nil_def)

lemma if_not_nil_Some: "if_not_nil (Some v) assign st = assign v st"
  by (simp add: if_not_nil_def)

lemmas flag_simps =
  frame_if_not_nil [where sel = WindowsWebAppModel.ClientAffinityEnabled]
  frame_if_not_nil [where sel = WindowsWebAppModel.ClientCertEnabled]
  frame_if_not_nil [where sel = WindowsWebAppModel.Enabled]
  frame_if_not_nil [where sel = WindowsWebAppModel.HttpsOnly]
  frame_if_not_empty [where sel = WindowsWebAppModel.ClientAffinityEnabled]
  frame_if_not_empty [where sel = WindowsWebAppModel.ClientCertEnabled]
  frame_if_not_empty [where sel = WindowsWebAppModel.Enabled]
  frame_if_not_empty [where sel = WindowsWebAppModel.HttpsOnly]
  if_not_nil_None if_not_nil_Some Read_state_rest_def Read_state_def Let_def

lemma Read_state_ClientAffinityEnabled:
  "WindowsWebAppModel.ClientAffinityEnabled
     (Read_state_rest pkg cfg stack stor conn cred
        (Read_state pkg id_v webApp props app auth backup logs)) =
     (case SiteProperties.ClientAffinityEnabled props of None \<Rightarrow> False | Some v \<Rightarrow> v)"
  by (cases "SiteProperties.ClientAffinityEnabled props") (simp_all add: flag_simps)

lemma Read_state_ClientCertEnabled:
  "WindowsWebAppModel.ClientCertEnabled
     (Read_state_rest pkg cfg stack stor conn cred
        (Read_state pkg id_v webApp props app auth backup logs)) =
     (case SiteProperties.ClientCertEnabled props of None \<Rightarrow> False | Some v \<Rightarrow> v)"
  by (cases "SiteProperties.ClientCertEnabled props") (simp_all add: flag_simps)

lemma Read_state_Enabled:
  "WindowsWebAppModel.Enabled
     (Read_state_rest pkg cfg stack stor conn cred
        (Read_state pkg id_v webApp props app auth backup logs)) =
     (case SiteProperties.Enabled props of None \<Rightarrow> False | Some v \<Rightarrow> v)"
  by (cases "SiteProperties.Enabled props") (simp_all add: flag_simps)

lemma Read_state_HttpsOnly:
  "WindowsWebAppModel.HttpsOnly
     (Read_state_rest pkg cfg stack stor conn cred
        (Read_state pkg id_v webApp props app auth backup logs)) =
     (case HTTPSOnly props of None \<Rightarrow> False | Some v \<Rightarrow> v)"
  by (cases "HTTPSOnly props") (simp_all add: flag_simps)

lemmas Read_state_flags = Read_state_ClientAffinityEnabled Read_state_ClientCertEnabled
  Read_state_Enabled Read_state_HttpsOnly

lemma Linux_Read_result:
  assumes "Decode metadata = (webApp, None)"
    and "WebAppsClient_Get (Client metadata) (LinuxWebAppModel.ResourceGroup webApp)
           (LinuxWebAppModel.Name webApp) = (existing, None)"
    and "SiteProperties existing = Some props"
    and "shared_reads_succeed pkg (Client metadata) (LinuxWebAppModel.ResourceGroup webApp)
           (LinuxWebAppModel.Name webApp)"
  shows "(snd (LinuxWebAppDataSource_Read pkg metadata) = Panic) =
           (SiteProperties.ClientAffinityEnabled props = None
            \<or> SiteProperties.ClientCertEnabled props = None
            \<or> SiteProperties.Enabled props = None
            \<or> HTTPSOnly props = None)"
proof -
  let ?c = "Client metadata" and ?rg = "LinuxWebAppModel.ResourceGroup webApp"
    and ?s = "LinuxWebAppModel.Name webApp"
  have ok: "snd (WebAppsClient_GetConfiguration ?c ?rg ?s) = None"
    "snd (WebAppsClient_GetAuthSettings ?c ?rg ?s) = None"
    "snd (WebAppsClient_GetBackupConfiguration ?c ?rg ?s) = None
       \<or> ResponseWasNotFound pkg
           (BackupRequest.Response (fst (WebAppsClient_GetBackupConfiguration ?c ?rg ?s)))"
    "snd (WebAppsClient_GetDiagnosticLogsConfiguration ?c ?rg ?s) = None"
    "snd (WebAppsClient_ListApplicationSettings ?c ?rg ?s) = None"
    "snd (WebAppsClient_ListAzureStorageAccounts ?c ?rg ?s) = None"
    "snd (WebAppsClient_ListConnectionStrings ?c ?rg ?s) = None"
    "snd (WebAppsClient_ListPublishingCredentials ?c ?rg ?s) = None"
    "WaitForCompletionRef (fst (WebAppsClient_ListPublishingCredentials ?c ?rg ?s)) = None"
    "snd (Result (fst (WebAppsClient_ListPublishingCredentials ?c ?rg ?s))) = None"
    using assms(4)
    unfolding shared_reads_succeed_def first_failure_None auxiliary_read_errors_def
    by (simp_all add: case_prod_beta split: if_split_asm)
  from ok(3) show ?thesis
  proof (elim disjE)
    assume "snd (WebAppsClient_GetBackupConfiguration ?c ?rg ?s) = None"
    with ok assms(1,2,3) show ?thesis
      by (simp add: LinuxWebAppDataSource_Read_def obs_simps NewWebAppID_def
          split: option.splits)
  next
    assume "ResponseWasNotFound pkg
           (BackupRequest.Response (fst (WebAppsClient_GetBackupConfiguration ?c ?rg ?s)))"
    with ok assms(1,2,3) show ?thesis
      by (simp add: LinuxWebAppDataSource_Read_def obs_simps NewWebAppID_def
          split: option.splits)
  qed
qed

text \<open>
  C10. When every read of the Linux data source goes through and the primary get has
  properties, its Read ends in a panic exactly when one of the four pointers
  \<open>ClientAffinityEnabled\<close>, \<open>ClientCertEnabled\<close>, \<open>Enabled\<close>, \<open>HTTPSOnly\<close> of those
  properties is \<open>nil\<close>. The resource's Read, on the same site and with its reads going
  through, reaches \<open>Encode\<close> with each of the four flags of its state equal to what the
  pointer holds, and \<open>false\<close> for a \<open>nil\<close> pointer.
\<close>

theorem Linux_Read_nil_flags:
  assumes "Decode metadata = (webApp, None)"
    and "WebAppsClient_Get (Client metadata) (LinuxWebAppModel.ResourceGroup webApp)
           (LinuxWebAppModel.Name webApp) = (existing, None)"
    and "SiteProperties existing = Some props"
    and "shared_reads_succeed pkg (Client metadata) (LinuxWebAppModel.ResourceGroup webApp)
           (LinuxWebAppModel.Name webApp)"
    and "WebAppID pkg (ResourceData_Id metadata') = (Some id_v, None)"
    and "WebAppsClient_Get (Client metadata') (WebAppId.ResourceGroup id_v) (SiteName id_v)
           = (existing, None)"
    and "first_failure (auxiliary_read_errors pkg (Client metadata')
            (WebAppId.ResourceGroup id_v) (SiteName id_v)) = None"
    and "map_of (StringDictionary.Properties
           (fst (WebAppsClient_ListMetadata (Client metadata')
                   (WebAppId.ResourceGroup id_v) (SiteName id_v)))) ''CURRENT_STACK''
         \<noteq> Some None"
  shows "(snd (LinuxWebAppDataSource_Read pkg metadata) = Panic) =
           (SiteProperties.ClientAffinityEnabled props = None
            \<or> SiteProperties.ClientCertEnabled props = None
            \<or> SiteProperties.Enabled props = None
            \<or> HTTPSOnly props = None)
       \<and> (\<exists>state. last (fst (WindowsWebAppResource_Read pkg metadata')) = Encode state
             \<and> snd (WindowsWebAppResource_Read pkg metadata') =
                 (case Encode_reply metadata' state of
                    None \<Rightarrow> Value () | Some e \<Rightarrow> Raise e)
             \<and> WindowsWebAppModel.ClientAffinityEnabled state =
                 (case SiteProperties.ClientAffinityEnabled props of
                    None \<Rightarrow> False | Some v \<Rightarrow> v)
             \<and> WindowsWebAppModel.ClientCertEnabled state =
                 (case SiteProperties.ClientCertEnabled props of
                    None \<Rightarrow> False | Some v \<Rightarrow> v)
             \<and> WindowsWebAppModel.Enabled state =
                 (case SiteProperties.Enabled props of None \<Rightarrow> False | Some v \<Rightarrow> v)
             \<and> WindowsWebAppModel.HttpsOnly state =
                 (case HTTPSOnly props of None \<Rightarrow> False | Some v \<Rightarrow> v))"
proof
  show "(snd (LinuxWebAppDataSource_Read pkg metadata) = Panic) =
           (SiteProperties.ClientAffinityEnabled props = None
            \<or> SiteProperties.ClientCertEnabled props = None
            \<or> SiteProperties.Enabled props = None
            \<or> HTTPSOnly props = None)"
    by (rule Linux_Read_result [OF assms(1-4)])
next
  from Read_all_fine [OF assms(5,6,3,7,8)] obtain currentStack
    where "fst (WindowsWebAppResource_Read pkg metadata') =
            [Get (WebAppId.ResourceGroup id_v) (SiteName id_v),
             GetConfiguration (WebAppId.ResourceGroup id_v) (SiteName id_v),
             GetAuthSettings (WebAppId.ResourceGroup id_v) (SiteName id_v),
             GetBackupConfiguration (WebAppId.ResourceGroup id_v) (SiteName id_v),
             GetDiagnosticLogsConfiguration (WebAppId.ResourceGroup id_v) (SiteName id_v),
             ListApplicationSettings (WebAppId.ResourceGroup id_v) (SiteName id_v),
             ListAzureStorageAccounts (WebAppId.ResourceGroup id_v) (SiteName id_v),
             ListConnectionStrings (WebAppId.ResourceGroup id_v) (SiteName id_v),
             ListPublishingCredentials (WebAppId.ResourceGroup id_v) (SiteName id_v),
             WaitForCompletion, FutureResult,
             ListMetadata (WebAppId.ResourceGroup id_v) (SiteName id_v),
             Encode (Read_state_rest pkg
               (fst (WebAppsClient_GetConfiguration (Client metadata')
                       (WebAppId.ResourceGroup id_v) (SiteName id_v)))
               currentStack
               (fst (WebAppsClient_ListAzureStorageAccounts (Client metadata')
                       (WebAppId.ResourceGroup id_v) (SiteName id_v)))
               (fst (WebAppsClient_ListConnectionStrings (Client metadata')
                       (WebAppId.ResourceGroup id_v) (SiteName id_v)))
               (fst (Result (fst (WebAppsClient_ListPublishingCredentials (Client metadata')
                       (WebAppId.ResourceGroup id_v) (SiteName id_v)))))
               (Read_state pkg id_v existing props
                 (fst (WebAppsClient_ListApplicationSettings (Client metadata')
                       (WebAppId.ResourceGroup id_v) (SiteName id_v)))
                 (fst (WebAppsClient_GetAuthSettings (Client metadata')
                       (WebAppId.ResourceGroup id_v) (SiteName id_v)))
                 (fst (WebAppsClient_GetBackupConfiguration (Client metadata')
                       (WebAppId.ResourceGroup id_v) (SiteName id_v)))
                 (fst (WebAppsClient_GetDiagnosticLogsConfiguration (Client metadata')
                       (WebAppId.ResourceGroup id_v) (SiteName id_v)))))]"
      and "snd (WindowsWebAppResource_Read pkg metadata') =
              (case Encode_reply metadata' (Read_state_rest pkg
               (fst (WebAppsClient_GetConfiguration (Client metadata')
                       (WebAppId.ResourceGroup id_v) (SiteName id_v)))
               currentStack
               (fst (WebAppsClient_ListAzureStorageAccounts (Client metadata')
                       (WebAppId.ResourceGroup id_v) (SiteName id_v)))
               (fst (WebAppsClient_ListConnectionStrings (Client metadata')
                       (WebAppId.ResourceGroup id_v) (SiteName id_v)))
               (fst (Result (fst (WebAppsClient_ListPublishingCredentials (Client metadata')
                       (WebAppId.ResourceGroup id_v) (SiteName id_v)))))
               (Read_state pkg id_v existing props
                 (fst (WebAppsClient_ListApplicationSettings (Client metadata')
                       (WebAppId.ResourceGroup id_v) (SiteName id_v)))
                 (fst (WebAppsClient_GetAuthSettings (Client metadata')
                       (WebAppId.ResourceGroup id_v) (SiteName id_v)))
                 (fst (WebAppsClient_GetBackupConfiguration (Client metadata')
                       (WebAppId.ResourceGroup id_v) (SiteName id_v)))
                 (fst (WebAppsClient_GetDiagnosticLogsConfiguration (Client metadata')
                       (WebAppId.ResourceGroup id_v) (SiteName id_v)))))
               of None \<Rightarrow> Value () | Some e \<Rightarrow> Raise e)"
    by blast
  then show "\<exists>state. last (fst (WindowsWebAppResource_Read pkg metadata')) = Encode state
             \<and> snd (WindowsWebAppResource_Read pkg metadata') =
                 (case Encode_reply metadata' state of
                    None \<Rightarrow> Value () | Some e \<Rightarrow> Raise e)
             \<and> WindowsWebAppModel.ClientAffinityEnabled state =
                 (case SiteProperties.ClientAffinityEnabled props of
                    None \<Rightarrow> False | Some v \<Rightarrow> v)
             \<and> WindowsWebAppModel.ClientCertEnabled state =
                 (case SiteProperties.ClientCertEnabled props of
                    None \<Rightarrow> False | Some v \<Rightarrow> v)
             \<and> WindowsWebAppModel.Enabled state =
                 (case SiteProperties.Enabled props of None \<Rightarrow> False | Some v \<Rightarrow> v)
             \<and> WindowsWebAppModel.HttpsOnly state =
                 (case HTTPSOnly props of None \<Rightarrow> False | Some v \<Rightarrow> v)"
    by (simp add: Read_state_flags)
qed

theorem Linux_Read_nil_flags_witness:
  "HTTPSOnly nil_flags_props = None
   \<and> snd (LinuxWebAppDataSource_Read example_pkg
         (example_metadata example_linux_webApp (\<lambda>f. False) nil_flags_client)) = Panic
   \<and> snd (WindowsWebAppResource_Read example_pkg
         (example_metadata example_webApp (\<lambda>f. False) nil_flags_client)) = Value ()"
proof -
  let ?l = "example_metadata example_linux_webApp (\<lambda>f. False) nil_flags_client"
  let ?w = "example_metadata example_webApp (\<lambda>f. False) nil_flags_client"
  let ?site = "example_site\<lparr>SiteProperties := Some nil_flags_props\<rparr>"
  note defs = example_simps nil_flags_client_def nil_flags_props_def
  have h: "Decode ?l = (example_linux_webApp, None)"
    "WebAppsClient_Get (Client ?l) (LinuxWebAppModel.ResourceGroup example_linux_webApp)
       (LinuxWebAppModel.Name example_linux_webApp) = (?site, None)"
    "SiteProperties ?site = Some nil_flags_props"
    "shared_reads_succeed example_pkg (Client ?l)
       (LinuxWebAppModel.ResourceGroup example_linux_webApp)
       (LinuxWebAppModel.Name example_linux_webApp)"
    "WebAppID example_pkg (ResourceData_Id ?w) = (Some example_id, None)"
    "WebAppsClient_Get (Client ?w) (WebAppId.ResourceGroup example_id) (SiteName example_id)
       = (?site, None)"
    "first_failure (auxiliary_read_errors example_pkg (Client ?w)
       (WebAppId.ResourceGroup example_id) (SiteName example_id)) = None"
    "map_of (StringDictionary.Properties
       (fst (WebAppsClient_ListMetadata (Client ?w)
               (WebAppId.ResourceGroup example_id) (SiteName example_id)))) ''CURRENT_STACK''
     \<noteq> Some None"
    by (simp_all add: defs shared_reads_succeed_def auxiliary_read_errors_def)
  have n: "HTTPSOnly nil_flags_props = None"
    by (simp add: nil_flags_props_def)
  have e: "\<And>state. Encode_reply ?w state = None"
    by (simp add: example_metadata_def)
  from Linux_Read_nil_flags [OF h] n e show ?thesis
    by auto
qed

section \<open>Create: the sub-resource groups\<close>









subsection \<open>From an event on\<close>















section \<open>Create: the name-availability check on an isolated environment\<close>







lemma Create_ase_parse_nil:
  assumes "Decode metadata = (webApp, None)"
    and "WebAppsClient_Get (Client metadata) (WindowsWebAppModel.ResourceGroup webApp)
           (WindowsWebAppModel.Name webApp) = (existing, gerr)"
    and "ResponseWasNotFound pkg (Site.Response existing)"
    and "ServicePlanID pkg (WindowsWebAppModel.ServicePlanId webApp) = (Some servicePlanId, None)"
    and "ServicePlanClient_Get (Client metadata) (ServicePlanId.ResourceGroup servicePlanId)
           (ServerfarmName servicePlanId) = (servicePlan, None)"
    and "HostingEnvironmentProfile servicePlan = Some ase"
    and "ID ase = Some aseIdStr"
    and "AppServiceEnvironmentID pkg aseIdStr = (None, perr)"
  shows "WindowsWebAppResource_Create pkg metadata =
           ([Get (WindowsWebAppModel.ResourceGroup webApp) (WindowsWebAppModel.Name webApp),
             ServicePlanGet (ServicePlanId.ResourceGroup servicePlanId)
               (ServerfarmName servicePlanId)],
            Panic)"
  using assms
  by (simp add: WindowsWebAppResource_Create_def run_simps Let_def NewWebAppID_def)

lemma Create_ase_bad_id_run:
  "WindowsWebAppResource_Create example_pkg
     (example_metadata example_webApp (\<lambda>f. False) ase_bad_id_client)
   = ([Get ''rg1'' ''app1'', ServicePlanGet ''rg1'' ''plan1''], Panic)"
  by (simp add: WindowsWebAppResource_Create_def run_simps example_simps ase_bad_id_client_def
      Let_def NewWebAppID_def)





end
